(* ===== verification/Prelude.thy ===== *)
theory Prelude
  imports Main "HOL-Library.Word"
begin

text \<open>
  Shared vocabulary of the development. It models the parts of the Python runtime that
  \<^verbatim>\<open>src/app.py\<close> relies on: exceptions as values of \<open>py_exc\<close>
  (a computation that may raise is a value of \<open>'a py = py_exc + 'a\<close>, \<open>Inl\<close> the
  exception), dictionaries as insertion-ordered association lists (\<open>dict_set\<close> is
  \<^verbatim>\<open>d[k] = v\<close>), \<^verbatim>\<open>str.split\<close> on a one-character separator
  (\<open>py_split\<close>) and \<^verbatim>\<open>functools.reduce\<close> with a function that may raise
  (\<open>py_reduce\<close>). It also fixes the two configuration constants of the program and the
  filesystem type shared by the provisioner and the lookup service.
\<close>

named_theorems py_simps "evaluation rules of the Python runtime model"
named_theorems dict_simps "lemmas on insertion-ordered dictionaries"

section \<open>Bytes, paths and the filesystem\<close>

type_synonym byte = "8 word"
type_synonym bytes = "byte list"
type_synonym path = string

text \<open>The filesystem maps a path to the content of the file there, if there is one.\<close>

type_synonym filesystem = "path \<Rightarrow> bytes option"

section \<open>Configuration constants (src/app.py, lines 13--14)\<close>

definition DB_FILE_LOCATION :: path where
  "DB_FILE_LOCATION = ''data/GeoLite2-City.mmdb''"

definition DB_FILE_URL :: string where
  "DB_FILE_URL = ''http://geolite.maxmind.com/download/geoip/database/GeoLite2-City.mmdb.gz''"

section \<open>Exceptions\<close>

text \<open>
  The exceptions that the program raises or that the libraries it calls raise into it.
  Each carries the message text the library gives it.
\<close>

datatype py_exc =
    AttributeError string
  | TypeError string
  | ValueError string
  | AddressNotFoundError string
  | FileNotFoundError string
  | InvalidDatabaseError string
  | ConnectionError string
  | ChunkedEncodingError string
  | BadGzipFile string
  | SystemExit int

text \<open>The class name of an exception, \<^verbatim>\<open>type(e).__name__\<close>.\<close>

primrec py_exc_name :: "py_exc \<Rightarrow> string" where
  "py_exc_name (AttributeError _) = ''AttributeError''"
| "py_exc_name (TypeError _) = ''TypeError''"
| "py_exc_name (ValueError _) = ''ValueError''"
| "py_exc_name (AddressNotFoundError _) = ''AddressNotFoundError''"
| "py_exc_name (FileNotFoundError _) = ''FileNotFoundError''"
| "py_exc_name (InvalidDatabaseError _) = ''InvalidDatabaseError''"
| "py_exc_name (ConnectionError _) = ''ConnectionError''"
| "py_exc_name (ChunkedEncodingError _) = ''ChunkedEncodingError''"
| "py_exc_name (BadGzipFile _) = ''BadGzipFile''"
| "py_exc_name (SystemExit _) = ''SystemExit''"

type_synonym 'a py = "py_exc + 'a"

text \<open>Sequencing two statements: an exception of the first skips the second.\<close>

definition py_bind :: "'a py \<Rightarrow> ('a \<Rightarrow> 'b py) \<Rightarrow> 'b py" where
  "py_bind m f = (case m of Inl e \<Rightarrow> Inl e | Inr x \<Rightarrow> f x)"

section \<open>Dictionaries\<close>

text \<open>
  A Python dict keeps its keys in insertion order; assigning to a present key keeps its
  position and replaces the value, assigning to a new key appends it.
\<close>

fun dict_set :: "('k \<times> 'v) list \<Rightarrow> 'k \<Rightarrow> 'v \<Rightarrow> ('k \<times> 'v) list" where
  "dict_set [] k v = [(k, v)]"
| "dict_set ((k', v') # d) k v =
     (if k' = k then (k, v) # d else (k', v') # dict_set d k v)"

section \<open>str.split\<close>

text \<open>
  \<^verbatim>\<open>s.split(c)\<close> for a separator of one character: the pieces between the
  occurrences of \<open>c\<close>, empty ones included; never an empty list.
\<close>

fun py_split :: "char \<Rightarrow> string \<Rightarrow> string list" where
  "py_split c [] = [[]]"
| "py_split c (x # xs) =
     (if x = c then [] # py_split c xs
      else (case py_split c xs of w # ws \<Rightarrow> (x # w) # ws | [] \<Rightarrow> [[x]]))"

section \<open>functools.reduce with a function that may raise\<close>

text \<open>
  \<^verbatim>\<open>reduce(f, xs, a)\<close> calls \<open>f(acc, x)\<close> for each element from the left; the
  first exception ends the loop and propagates.
\<close>

fun py_reduce :: "('a \<Rightarrow> 'b \<Rightarrow> 'a py) \<Rightarrow> 'b list \<Rightarrow> 'a \<Rightarrow> 'a py" where
  "py_reduce f [] acc = Inr acc"
| "py_reduce f (x # xs) acc = py_bind (f acc x) (py_reduce f xs)"

lemma py_bind_Inl [simp, py_simps]: "py_bind (Inl e) f = Inl e"
  by (simp add: py_bind_def)

lemma py_bind_Inr [simp, py_simps]: "py_bind (Inr x) f = f x"
  by (simp add: py_bind_def)

lemma py_bind_eq_Inr:
  "py_bind m f = Inr y \<longleftrightarrow> (\<exists>x. m = Inr x \<and> f x = Inr y)"
  by (cases m) auto

lemma map_of_dict_set [simp, dict_simps]:
  "map_of (dict_set d k v) = (map_of d)(k \<mapsto> v)"
  by (induction d) (auto simp: fun_eq_iff)

lemma dict_set_new [dict_simps]:
  "k \<notin> set (map fst d) \<Longrightarrow> dict_set d k v = d @ [(k, v)]"
  by (induction d) auto

lemma keys_map_values [simp, dict_simps]:
  "map fst (map (\<lambda>(k, p). (k, f p)) xs) = map fst xs"
  by (induction xs) auto

lemma map_of_map_values [dict_simps]:
  "distinct (map fst xs) \<Longrightarrow> (k, p) \<in> set xs \<Longrightarrow>
   map_of (map (\<lambda>(k, p). (k, f p)) xs) k = Some (f p)"
  by (induction xs) (auto simp: image_iff)

lemma map_of_append_fresh [dict_simps]:
  "k \<notin> set (map fst xs) \<Longrightarrow> map_of (xs @ ys) k = map_of ys k"
  by (induction xs) auto

lemma keys_dict_set [dict_simps]:
  "map fst (dict_set d k v) =
     (if k \<in> set (map fst d) then map fst d else map fst d @ [k])"
  by (induction d) (fastforce simp: image_iff)+

lemma keys_dict_set_new [simp, dict_simps]:
  "k \<notin> set (map fst d) \<Longrightarrow> map fst (dict_set d k v) = map fst d @ [k]"
  by (simp add: keys_dict_set)

lemma py_split_not_Nil [simp]: "py_split c s \<noteq> []"
  by (induction s) (auto split: list.split)

lemma py_split_free [simp]: "c \<notin> set s \<Longrightarrow> py_split c s = [s]"
  by (induction s) auto

end
