(* ===== verification/PyObject.thy ===== *)
theory PyObject
  imports Complex_Main Prelude "HOL-Library.List_Lexorder" "HOL-Library.Char_ord"
begin

text \<open>
  Python values as the handler of \<^verbatim>\<open>src/app.py\<close> sees them: the location record
  that \<^verbatim>\<open>geoip2\<close> returns is an object whose attributes are again objects or
  leaves (strings, numbers, \<^verbatim>\<open>None\<close>); the response is a dict. \<open>py_getattr\<close> is
  the builtin \<^verbatim>\<open>getattr(obj, name)\<close>: an object's attribute, or
  \<^verbatim>\<open>AttributeError\<close> on any other value. \<open>resolve_path\<close> is the reference
  nested-path traversal of the specification (option at each step, stop at the first
  missing attribute), and the lemmas below show that the source's
  \<^verbatim>\<open>reduce(getattr, ...)\<close> computes it. \<open>py_to_json\<close> is the serialisation
  that \<^verbatim>\<open>json.dumps\<close> and \<^verbatim>\<open>jsonify\<close> perform.
\<close>

section \<open>Values\<close>

datatype pyobj =
    PyNone
  | PyStr string
  | PyInt int
  | PyFloat real
  | PyObj "(string \<times> pyobj) list"
  | PyDict "(string \<times> pyobj) list"

definition quoted :: "string \<Rightarrow> string" where
  "quoted s = CHR 0x27 # s @ [CHR 0x27]"

fun py_type_name :: "pyobj \<Rightarrow> string" where
  "py_type_name PyNone = ''NoneType''"
| "py_type_name (PyStr _) = ''str''"
| "py_type_name (PyInt _) = ''int''"
| "py_type_name (PyFloat _) = ''float''"
| "py_type_name (PyObj _) = ''object''"
| "py_type_name (PyDict _) = ''dict''"

section \<open>getattr\<close>

text \<open>
  Attributes live in the namespace of an object. The builtin methods of \<^verbatim>\<open>str\<close>,
  \<^verbatim>\<open>float\<close> and \<^verbatim>\<open>dict\<close> (\<^verbatim>\<open>title\<close>, \<^verbatim>\<open>real\<close>,
  \<^verbatim>\<open>items\<close>, ...) are not in the model: no path of the program names one.
\<close>

fun py_getattr :: "pyobj \<Rightarrow> string \<Rightarrow> pyobj py" where
  "py_getattr (PyObj attrs) n =
     (case map_of attrs n of
        Some v \<Rightarrow> Inr v
      | None \<Rightarrow> Inl (AttributeError (quoted ''object'' @ '' object has no attribute '' @ quoted n)))"
| "py_getattr v n =
     Inl (AttributeError (quoted (py_type_name v) @ '' object has no attribute '' @ quoted n))"

text \<open>The traversal the specification asks for, with \<open>option\<close> at each step.\<close>

fun attr_of :: "pyobj \<Rightarrow> string \<Rightarrow> pyobj option" where
  "attr_of (PyObj attrs) n = map_of attrs n"
| "attr_of _ n = None"

fun resolve_path :: "pyobj \<Rightarrow> string list \<Rightarrow> pyobj option" where
  "resolve_path v [] = Some v"
| "resolve_path v (n # ns) =
     (case attr_of v n of None \<Rightarrow> None | Some v' \<Rightarrow> resolve_path v' ns)"

section \<open>JSON serialisation\<close>

datatype json =
    JNull
  | JStr string
  | JInt int
  | JFloat real
  | JObj "(string \<times> json) list"

text \<open>
  \<^verbatim>\<open>json.dumps\<close> and \<^verbatim>\<open>jsonify\<close> serialise leaves and dicts and raise
  \<^verbatim>\<open>TypeError\<close> on any other object.
\<close>

fun py_to_json :: "pyobj \<Rightarrow> json py"
  and py_items_to_json :: "(string \<times> pyobj) list \<Rightarrow> (string \<times> json) list py" where
  "py_to_json PyNone = Inr JNull"
| "py_to_json (PyStr s) = Inr (JStr s)"
| "py_to_json (PyInt i) = Inr (JInt i)"
| "py_to_json (PyFloat r) = Inr (JFloat r)"
| "py_to_json (PyObj attrs) =
     Inl (TypeError (''Object of type object is not JSON serializable''))"
| "py_to_json (PyDict d) = py_bind (py_items_to_json d) (\<lambda>js. Inr (JObj js))"
| "py_items_to_json [] = Inr []"
| "py_items_to_json ((k, v) # d) =
     py_bind (py_to_json v) (\<lambda>j. py_bind (py_items_to_json d) (\<lambda>js. Inr ((k, j) # js)))"

text \<open>
  \<^verbatim>\<open>jsonify\<close> serialises with \<^verbatim>\<open>sort_keys=True\<close> (Flask's default): the keys of
  every object, at every depth, in Python's string order, which is the lexicographic
  order of the code points.
\<close>

fun sort_json :: "json \<Rightarrow> json"
  and sort_json_items :: "(string \<times> json) list \<Rightarrow> (string \<times> json) list" where
  "sort_json JNull = JNull"
| "sort_json (JStr s) = JStr s"
| "sort_json (JInt i) = JInt i"
| "sort_json (JFloat r) = JFloat r"
| "sort_json (JObj kvs) = JObj (sort_key fst (sort_json_items kvs))"
| "sort_json_items [] = []"
| "sort_json_items ((k, v) # kvs) = (k, sort_json v) # sort_json_items kvs"

text \<open>A leaf is a value that serialises.\<close>

fun is_leaf :: "pyobj \<Rightarrow> bool" where
  "is_leaf PyNone = True"
| "is_leaf (PyStr _) = True"
| "is_leaf (PyInt _) = True"
| "is_leaf (PyFloat _) = True"
| "is_leaf _ = False"

section \<open>Lemmas on getattr and path resolution\<close>

lemma py_getattr_Inr_iff [py_simps]: "py_getattr v n = Inr w \<longleftrightarrow> attr_of v n = Some w"
  by (cases v) (auto split: option.split)

lemma py_getattr_Inl_iff [py_simps]:
  "(\<exists>m. py_getattr v n = Inl (AttributeError m)) \<longleftrightarrow> attr_of v n = None"
  by (cases v) (auto split: option.split)

lemma py_getattr_only_AttributeError:
  "py_getattr v n = Inl e \<Longrightarrow> \<exists>m. e = AttributeError m"
  by (cases v) (auto split: option.splits)

text \<open>\<^verbatim>\<open>reduce(getattr, ns, v)\<close> raises only \<^verbatim>\<open>AttributeError\<close>.\<close>

lemma py_reduce_getattr_exc:
  "py_reduce py_getattr ns v = Inl e \<Longrightarrow> \<exists>m. e = AttributeError m"
proof (induction ns arbitrary: v)
  case Nil
  then show ?case by simp
next
  case (Cons n ns)
  then show ?case
    by (cases "py_getattr v n") (auto dest: py_getattr_only_AttributeError)
qed

lemma py_reduce_getattr_Inr:
  "py_reduce py_getattr ns v = Inr w \<longleftrightarrow> resolve_path v ns = Some w"
proof (induction ns arbitrary: v)
  case Nil
  then show ?case by simp
next
  case (Cons n ns)
  show ?case
  proof (cases "attr_of v n")
    case None
    then obtain m where "py_getattr v n = Inl (AttributeError m)"
      using py_getattr_Inl_iff by blast
    with None show ?thesis by simp
  next
    case (Some v')
    then have "py_getattr v n = Inr v'" by (simp add: py_getattr_Inr_iff)
    with Some Cons.IH show ?thesis by simp
  qed
qed

section \<open>Lemmas on serialisation\<close>

lemma py_items_to_json_keys:
  "py_items_to_json d = Inr js \<Longrightarrow> map fst js = map fst d"
  by (induction d arbitrary: js) (auto simp: py_bind_eq_Inr)

lemma py_items_to_json_leaves:
  "\<forall>v \<in> snd ` set d. is_leaf v \<Longrightarrow> \<exists>js. py_items_to_json d = Inr js"
proof (induction d)
  case Nil
  then show ?case by simp
next
  case (Cons kv d)
  obtain k v where kv: "kv = (k, v)" by fastforce
  with Cons.prems have "is_leaf v" by simp
  then obtain j where "py_to_json v = Inr j" by (cases v) auto
  moreover from Cons obtain js where "py_items_to_json d = Inr js" by auto
  ultimately show ?case using kv by simp
qed

text \<open>Serialisation raises nothing but the \<^verbatim>\<open>TypeError\<close> of an unserialisable object.\<close>

lemma py_to_json_exc:
  "py_to_json v = Inl e \<Longrightarrow> e = TypeError ''Object of type object is not JSON serializable''"
  "py_items_to_json d = Inl e \<Longrightarrow> e = TypeError ''Object of type object is not JSON serializable''"
proof (induction v and d arbitrary: e and e rule: py_to_json_py_items_to_json.induct)
  case (8 k v d)
  then show ?case by (cases "py_to_json v"; cases "py_items_to_json d") auto
qed (auto simp: py_bind_def split: sum.splits)

text \<open>A dict with an object among its values does not serialise.\<close>

lemma py_items_to_json_obj:
  "(k, PyObj attrs) \<in> set d \<Longrightarrow>
   py_items_to_json d = Inl (TypeError ''Object of type object is not JSON serializable'')"
proof (induction d)
  case Nil
  then show ?case by simp
next
  case (Cons kv d)
  obtain k' v where kv: "kv = (k', v)" by fastforce
  show ?case
  proof (cases "py_to_json v")
    case (Inl e)
    then show ?thesis using kv py_to_json_exc(1) [OF Inl] by simp
  next
    case (Inr j)
    with Cons kv have "v \<noteq> PyObj attrs \<or> k' \<noteq> k" by auto
    with Cons kv Inr show ?thesis by (cases "(k, PyObj attrs) \<in> set d") auto
  qed
qed

text \<open>Serialised leaves are left alone by the key sort.\<close>

lemma py_items_to_json_leaves_sorted:
  "\<forall>v \<in> snd ` set d. is_leaf v \<Longrightarrow> py_items_to_json d = Inr js \<Longrightarrow> sort_json_items js = js"
proof (induction d arbitrary: js)
  case Nil
  then show ?case by simp
next
  case (Cons kv d)
  obtain k v where kv: "kv = (k, v)" by fastforce
  with Cons.prems(1) have leaf: "is_leaf v" by simp
  from Cons.prems(2) kv obtain j js' where j: "py_to_json v = Inr j"
    and js': "py_items_to_json d = Inr js'" and js: "js = (k, j) # js'"
    by (auto simp: py_bind_eq_Inr)
  from leaf j have "sort_json j = j" by (cases v) auto
  with Cons.IH [OF _ js'] Cons.prems(1) js show ?case by simp
qed

lemma map_fst_insort_key: "map fst (insort_key fst x xs) = insort (fst x) (map fst xs)"
  by (induction xs) auto

lemma map_fst_sort_key: "map fst (sort_key fst xs) = sort (map fst xs)"
  by (induction xs) (simp_all add: map_fst_insort_key)

lemma map_fst_sort_json_items: "map fst (sort_json_items js) = map fst js"
  by (induction js) auto

end
