(* ===== verification/Mapper.thy ===== *)
theory Mapper
  imports PyObject
begin

text \<open>
  The field extraction mapper of \<^verbatim>\<open>src/app.py\<close>: the table
  \<^verbatim>\<open>JSON_MAPPING\<close> (lines 16--26), the constants \<^verbatim>\<open>METRO_CODE\<close> and
  \<^verbatim>\<open>CODE\<close> (lines 29--30) and the body of the handler that builds the response dict
  from the location record (lines 81--89). \<open>extract_field\<close> is one iteration of the
  loop (the \<^verbatim>\<open>try\<close>/\<^verbatim>\<open>except AttributeError\<close> around
  \<^verbatim>\<open>reduce(getattr, value.split('.'), result)\<close>), \<open>fill_response\<close> the loop,
  \<open>build_response\<close> the loop followed by the three constant fields. The lemmas show
  that the mapper never raises, that the response is the abstract \<open>spec_response\<close>
  (each field resolved along its path, \<^verbatim>\<open>''\<close> where an attribute is missing),
  and the consequences the specification lists.
\<close>

section \<open>Configuration\<close>

definition JSON_MAPPING :: "(string \<times> string) list" where
  "JSON_MAPPING =
    [(''country_name'', ''country.name''),
     (''longitude'', ''location.longitude''),
     (''zip_code'', ''postal.code''),
     (''time_zone'', ''location.time_zone''),
     (''region_code'', ''subdivisions.most_specific.iso_code''),
     (''country_code'', ''country.iso_code''),
     (''latitude'', ''location.latitude''),
     (''city'', ''city.name''),
     (''region_name'', ''subdivisions.most_specific.name'')]"

definition METRO_CODE :: int where
  "METRO_CODE = 0"

definition CODE :: int where
  "CODE = 200"

section \<open>The extraction loop\<close>

definition extract_field :: "pyobj \<Rightarrow> string \<Rightarrow> pyobj py" where
  "extract_field result value =
     (case py_reduce py_getattr (py_split (CHR ''.'') value) result of
        Inr v \<Rightarrow> Inr v
      | Inl e \<Rightarrow> (case e of AttributeError _ \<Rightarrow> Inr (PyStr '''') | _ \<Rightarrow> Inl e))"

fun fill_response ::
  "pyobj \<Rightarrow> (string \<times> string) list \<Rightarrow> (string \<times> pyobj) list \<Rightarrow> (string \<times> pyobj) list py" where
  "fill_response result [] response = Inr response"
| "fill_response result ((key, value) # items) response =
     py_bind (extract_field result value)
       (\<lambda>v. fill_response result items (dict_set response key v))"

definition build_response :: "pyobj \<Rightarrow> string \<Rightarrow> (string \<times> pyobj) list py" where
  "build_response result ip =
     py_bind (fill_response result JSON_MAPPING [])
       (\<lambda>response.
          let r1 = dict_set response ''ip'' (PyStr ip);
              r2 = dict_set r1 ''metro_code'' (PyInt METRO_CODE)
          in Inr (dict_set r2 ''code'' (PyInt CODE)))"

section \<open>The abstract response\<close>

text \<open>
  What the specification promises (its sections 4.3 and 6): each field of the table
  resolved along its dotted path, or \<^verbatim>\<open>''\<close> at the first missing attribute, in
  the order of the table, followed by the address and the two constants.
\<close>

definition field_value :: "pyobj \<Rightarrow> string \<Rightarrow> pyobj" where
  "field_value result value =
     (case resolve_path result (py_split (CHR ''.'') value) of
        Some v \<Rightarrow> v
      | None \<Rightarrow> PyStr '''')"

definition spec_response :: "pyobj \<Rightarrow> string \<Rightarrow> (string \<times> pyobj) list" where
  "spec_response result ip =
     map (\<lambda>(k, p). (k, field_value result p)) JSON_MAPPING @
       [(''ip'', PyStr ip), (''metro_code'', PyInt 0), (''code'', PyInt 200)]"

definition response_keys :: "string list" where
  "response_keys =
    [''country_name'', ''longitude'', ''zip_code'', ''time_zone'', ''region_code'',
     ''country_code'', ''latitude'', ''city'', ''region_name'', ''ip'', ''metro_code'', ''code'']"

section \<open>Lemmas\<close>

lemma extract_field_eq: "extract_field result value = Inr (field_value result value)"
proof (cases "py_reduce py_getattr (py_split (CHR ''.'') value) result")
  case (Inl e)
  then obtain m where "e = AttributeError m" using py_reduce_getattr_exc by blast
  moreover from Inl have "resolve_path result (py_split (CHR ''.'') value) = None"
    using py_reduce_getattr_Inr [of "py_split (CHR ''.'') value" result]
    by (cases "resolve_path result (py_split (CHR ''.'') value)") auto
  ultimately show ?thesis using Inl by (simp add: extract_field_def field_value_def)
next
  case (Inr v)
  then have "resolve_path result (py_split (CHR ''.'') value) = Some v"
    using py_reduce_getattr_Inr by blast
  with Inr show ?thesis by (simp add: extract_field_def field_value_def)
qed

lemma fill_response_fresh:
  "distinct (map fst items) \<Longrightarrow> set (map fst items) \<inter> set (map fst resp) = {} \<Longrightarrow>
   fill_response result items resp =
     Inr (resp @ map (\<lambda>(k, p). (k, field_value result p)) items)"
proof (induction items arbitrary: resp)
  case Nil
  then show ?case by simp
next
  case (Cons kp items)
  obtain k p where kp: "kp = (k, p)" by fastforce
  with Cons.prems have k: "k \<notin> set (map fst resp)" by auto
  let ?resp' = "resp @ [(k, field_value result p)]"
  from Cons.prems kp have "fill_response result items ?resp' =
      Inr (?resp' @ map (\<lambda>(k, p). (k, field_value result p)) items)"
    by (intro Cons.IH) auto
  with k kp show ?case by (simp add: extract_field_eq dict_set_new)
qed

lemma JSON_MAPPING_keys_distinct: "distinct (map fst JSON_MAPPING)"
  by (simp add: JSON_MAPPING_def)

lemma constant_keys_fresh:
  "''ip'' \<notin> set (map fst JSON_MAPPING)"
  "''metro_code'' \<notin> set (map fst JSON_MAPPING)"
  "''code'' \<notin> set (map fst JSON_MAPPING)"
  by (simp_all add: JSON_MAPPING_def)

text \<open>The refinement at the heart of the mapper: the code computes \<open>spec_response\<close>.\<close>

lemma build_response_spec:
  "build_response result ip = Inr (spec_response result ip)"
proof -
  let ?fields = "map (\<lambda>(k, p). (k, field_value result p)) JSON_MAPPING"
  have fill: "fill_response result JSON_MAPPING [] = Inr ?fields"
    using fill_response_fresh [OF JSON_MAPPING_keys_distinct] by simp
  let ?r1 = "?fields @ [(''ip'', PyStr ip)]"
  let ?r2 = "?fields @ [(''ip'', PyStr ip), (''metro_code'', PyInt 0)]"
  have r1: "dict_set ?fields ''ip'' (PyStr ip) = ?r1"
    using constant_keys_fresh(1) by (subst dict_set_new) force+
  have r2: "dict_set ?r1 ''metro_code'' (PyInt 0) = ?r2"
    using constant_keys_fresh(2) by (subst dict_set_new) force+
  have r3: "dict_set ?r2 ''code'' (PyInt 200) =
      ?fields @ [(''ip'', PyStr ip), (''metro_code'', PyInt 0), (''code'', PyInt 200)]"
    using constant_keys_fresh(3) by (subst dict_set_new) force+
  show ?thesis
    by (simp add: build_response_def spec_response_def fill r1 r2 r3 METRO_CODE_def CODE_def)
qed

lemma spec_response_keys: "map fst (spec_response result ip) = response_keys"
  by (simp add: spec_response_def JSON_MAPPING_def response_keys_def)

lemma spec_response_lookup_field:
  "(k, p) \<in> set JSON_MAPPING \<Longrightarrow> map_of (spec_response result ip) k = Some (field_value result p)"
  by (simp add: spec_response_def map_of_map_values JSON_MAPPING_keys_distinct)

lemma spec_response_constants:
  "map_of (spec_response result ip) ''ip'' = Some (PyStr ip)"
  "map_of (spec_response result ip) ''metro_code'' = Some (PyInt 0)"
  "map_of (spec_response result ip) ''code'' = Some (PyInt 200)"
proof -
  let ?fields = "map (\<lambda>(k, p). (k, field_value result p)) JSON_MAPPING"
  let ?c = "[(''ip'', PyStr ip), (''metro_code'', PyInt 0), (''code'', PyInt 200)]"
  have keys: "set (map fst ?fields) = set (map fst JSON_MAPPING)"
    by (simp only: keys_map_values)
  have ip: "map_of (?fields @ ?c) ''ip'' = map_of ?c ''ip''"
    by (rule map_of_append_fresh) (simp only: keys constant_keys_fresh(1) not_False_eq_True)
  have mc: "map_of (?fields @ ?c) ''metro_code'' = map_of ?c ''metro_code''"
    by (rule map_of_append_fresh) (simp only: keys constant_keys_fresh(2) not_False_eq_True)
  have cd: "map_of (?fields @ ?c) ''code'' = map_of ?c ''code''"
    by (rule map_of_append_fresh) (simp only: keys constant_keys_fresh(3) not_False_eq_True)
  show "map_of (spec_response result ip) ''ip'' = Some (PyStr ip)"
    unfolding spec_response_def ip by simp
  show "map_of (spec_response result ip) ''metro_code'' = Some (PyInt 0)"
    unfolding spec_response_def mc by simp
  show "map_of (spec_response result ip) ''code'' = Some (PyInt 200)"
    unfolding spec_response_def cd by simp
qed

section \<open>Properties of the mapper\<close>

text \<open>
  C2: the mapper never raises, and the response it builds has exactly the twelve keys of
  the specification, in the order \<^verbatim>\<open>country_name\<close>, ..., \<^verbatim>\<open>region_name\<close>,
  \<^verbatim>\<open>ip\<close>, \<^verbatim>\<open>metro_code\<close>, \<^verbatim>\<open>code\<close>, whatever the record.
\<close>

theorem build_response_keys:
  "\<exists>r. build_response result ip = Inr r \<and> map fst r = response_keys"
  by (simp add: build_response_spec spec_response_keys)

text \<open>
  C3: per-field fallback. Each field of the table holds the value its dotted path
  resolves to in the record, or the empty string when an attribute along the path is
  missing; no missing attribute aborts the extraction of the other fields.
\<close>

theorem build_response_field_fallback:
  assumes "(k, p) \<in> set JSON_MAPPING"
  shows "\<exists>r. build_response result ip = Inr r \<and>
    map_of r k = Some (case resolve_path result (py_split (CHR ''.'') p) of
                         Some v \<Rightarrow> v
                       | None \<Rightarrow> PyStr '''')"
  using assms by (simp add: build_response_spec spec_response_lookup_field field_value_def)

text \<open>
  C4: in every response, \<^verbatim>\<open>ip\<close> is the queried address,
  \<^verbatim>\<open>metro_code\<close> is 0 and \<^verbatim>\<open>code\<close> is 200, regardless of the record.
\<close>

theorem build_response_constants:
  "\<exists>r. build_response result ip = Inr r \<and> map_of r ''ip'' = Some (PyStr ip) \<and>
     map_of r ''metro_code'' = Some (PyInt METRO_CODE) \<and> map_of r ''code'' = Some (PyInt CODE) \<and>
     METRO_CODE = 0 \<and> CODE = 200"
  by (simp add: build_response_spec spec_response_constants METRO_CODE_def CODE_def)

end
