(* ===== verification/Logging.thy ===== *)
theory Logging
  imports PyObject
begin

text \<open>
  Logging in \<^verbatim>\<open>src/app.py\<close>: \<^verbatim>\<open>setup_logging\<close> (lines 34--39) configures the
  root logger with \<^verbatim>\<open>logging.basicConfig\<close> at \<^verbatim>\<open>DEBUG\<close> or \<^verbatim>\<open>INFO\<close>, and
  the handler writes records through \<^verbatim>\<open>app.logger\<close> (lines 69, 78, 90, 93). A record
  has a level and a message; the message of line 90 embeds the text of
  \<^verbatim>\<open>json.dumps(response, indent=2)\<close>, which the model keeps as the JSON document it
  prints (\<open>LogJson prefix doc\<close>: the prefix followed by the indented text of \<open>doc\<close>).
  A logger passes on the records at or above its effective level: \<^verbatim>\<open>app.logger\<close>
  has no level of its own (Flask sets one only for a debug app) and inherits the root's,
  so what reaches the output is \<open>emitted\<close> at the level \<^verbatim>\<open>setup_logging\<close> chose.
  Levels are Python's numbers (\<^verbatim>\<open>logging.DEBUG = 10\<close>, ...).
\<close>

datatype log_level = DEBUG | INFO | WARNING

fun level_no :: "log_level \<Rightarrow> nat" where
  "level_no DEBUG = 10"
| "level_no INFO = 20"
| "level_no WARNING = 30"

text \<open>Levels compare as Python compares them, by their numbers.\<close>

instantiation log_level :: linorder
begin

definition less_eq_log_level :: "log_level \<Rightarrow> log_level \<Rightarrow> bool" where
  "less_eq_log_level a b = (level_no a \<le> level_no b)"

definition less_log_level :: "log_level \<Rightarrow> log_level \<Rightarrow> bool" where
  "less_log_level a b = (level_no a < level_no b)"

instance
proof
  fix a b c :: log_level
  show "a < b \<longleftrightarrow> a \<le> b \<and> \<not> b \<le> a" by (auto simp: less_eq_log_level_def less_log_level_def)
  show "a \<le> a" by (simp add: less_eq_log_level_def)
  show "a \<le> b \<Longrightarrow> b \<le> c \<Longrightarrow> a \<le> c" by (simp add: less_eq_log_level_def)
  show "a \<le> b \<Longrightarrow> b \<le> a \<Longrightarrow> a = b"
    by (cases a; cases b) (simp_all add: less_eq_log_level_def)
  show "a \<le> b \<or> b \<le> a" by (auto simp: less_eq_log_level_def)
qed

end

definition setup_logging :: "bool \<Rightarrow> log_level" where
  "setup_logging loglevel = (if loglevel then DEBUG else INFO)"

datatype log_msg = LogText string | LogJson string json

record log_record =
  lr_level :: log_level
  lr_msg :: log_msg

text \<open>A record of \<^verbatim>\<open>app.logger.info(m)\<close>.\<close>

definition log_info :: "string \<Rightarrow> log_record" where
  "log_info m = \<lparr>lr_level = INFO, lr_msg = LogText m\<rparr>"

definition emitted :: "log_level \<Rightarrow> log_record list \<Rightarrow> log_record list" where
  "emitted lvl recs = filter (\<lambda>r. lvl \<le> lr_level r) recs"

text \<open>Records the configuration never hides: at \<^verbatim>\<open>INFO\<close> or above.\<close>

definition info_or_above :: "log_record list \<Rightarrow> bool" where
  "info_or_above recs = list_all (\<lambda>r. INFO \<le> lr_level r) recs"

lemma log_level_le_no [simp]: "(a::log_level) \<le> b \<longleftrightarrow> level_no a \<le> level_no b"
  by (simp add: less_eq_log_level_def)

lemma info_or_above_append [simp]:
  "info_or_above (xs @ ys) \<longleftrightarrow> info_or_above xs \<and> info_or_above ys"
  by (simp add: info_or_above_def)

lemma emitted_info_or_above:
  "info_or_above recs \<Longrightarrow> emitted (setup_logging v) recs = recs"
proof -
  assume "info_or_above recs"
  then have "\<forall>r \<in> set recs. setup_logging v \<le> lr_level r"
    by (auto simp: info_or_above_def setup_logging_def list_all_iff)
  then show ?thesis by (simp add: emitted_def)
qed

end
