(* ===== verification/Lookup.thy ===== *)
theory Lookup
  imports Mapper Logging
begin

text \<open>
  The lookup service and the request handler of \<^verbatim>\<open>src/app.py\<close>:
  \<^verbatim>\<open>get_db_reader\<close> (lines 66--71) and the route \<^verbatim>\<open>geoip\<close> (lines 73--94).
  The query engine (\<^verbatim>\<open>geoip2.database.Reader\<close> over the binary MaxMind format) is
  an external library: the model takes the decoder of the database file as a parameter
  \<open>decode\<close>, which gives for each address string what the engine answers
  (\<open>query_outcome\<close>). Opening the reader and \<^verbatim>\<open>reader.city\<close> are modelled from
  the specification (section 4.2) with the messages of the library. The request context
  \<^verbatim>\<open>flask.g\<close> is a record with the cache slot \<^verbatim>\<open>_db_reader\<close>; the
  state also counts the readers the handler opens, so that the cost of the missing cache
  write can be stated, and holds the records the handler writes through
  \<^verbatim>\<open>app.logger\<close> (lines 69, 78, 90, 93; see \<open>Logging\<close>).
\<close>

section \<open>The query engine interface\<close>

datatype query_outcome = Found pyobj | NotInDatabase | InvalidAddress

type_synonym mmdb_decoder = "bytes \<Rightarrow> (string \<Rightarrow> query_outcome) option"

record reader =
  rd_query :: "string \<Rightarrow> query_outcome"

definition open_reader :: "mmdb_decoder \<Rightarrow> filesystem \<Rightarrow> path \<Rightarrow> reader py" where
  "open_reader decode fs p =
     (case fs p of
        None \<Rightarrow> Inl (FileNotFoundError (''[Errno 2] No such file or directory: '' @ quoted p))
      | Some content \<Rightarrow>
          (case decode content of
             None \<Rightarrow> Inl (InvalidDatabaseError
                       (''Error opening database file ('' @ p @ ''). Is this a valid MaxMind DB file?''))
           | Some q \<Rightarrow> Inr \<lparr>rd_query = q\<rparr>))"

definition not_found_message :: "string \<Rightarrow> string" where
  "not_found_message ip = ''The address '' @ ip @ '' is not in the database.''"

definition reader_city :: "reader \<Rightarrow> string \<Rightarrow> pyobj py" where
  "reader_city rd ip =
     (case rd_query rd ip of
        Found r \<Rightarrow> Inr r
      | NotInDatabase \<Rightarrow> Inl (AddressNotFoundError (not_found_message ip))
      | InvalidAddress \<Rightarrow>
          Inl (ValueError (quoted ip @ '' does not appear to be an IPv4 or IPv6 address'')))"

section \<open>Request context and get_db_reader\<close>

record flask_g =
  g_db_reader :: "reader option"

record lookup_state =
  req_g :: flask_g
  open_attempts :: nat
  app_log :: "log_record list"

text \<open>\<^verbatim>\<open>app.logger.info(...)\<close> and \<^verbatim>\<open>app.logger.warning(...)\<close>: a record appended.\<close>

definition app_logger :: "log_level \<Rightarrow> log_msg \<Rightarrow> lookup_state \<Rightarrow> lookup_state" where
  "app_logger lvl msg st = st\<lparr>app_log := app_log st @ [\<lparr>lr_level = lvl, lr_msg = msg\<rparr>]\<rparr>"

text \<open>
  \<^verbatim>\<open>get_db_reader\<close> reads the slot and, when it is empty, opens a reader; it never
  writes the slot back.
\<close>

definition get_db_reader ::
  "mmdb_decoder \<Rightarrow> filesystem \<Rightarrow> lookup_state \<Rightarrow> reader py \<times> lookup_state" where
  "get_db_reader decode fs st =
     (case g_db_reader (req_g st) of
        Some reader \<Rightarrow> (Inr reader, st)
      | None \<Rightarrow>
          (open_reader decode fs DB_FILE_LOCATION,
           (app_logger INFO (LogText ''opening connection to database'') st)
             \<lparr>open_attempts := Suc (open_attempts st)\<rparr>))"

section \<open>Serialisation\<close>

text \<open>The log line of line 90 serialises the response with \<^verbatim>\<open>json.dumps\<close>.\<close>

definition json_dumps :: "(string \<times> pyobj) list \<Rightarrow> json py" where
  "json_dumps d = py_to_json (PyDict d)"

text \<open>
  \<^verbatim>\<open>jsonify(**response)\<close> (line 91) serialises the same dict with Flask's
  \<^verbatim>\<open>sort_keys=True\<close>: the answer lists the keys in sorted order.
\<close>

definition jsonify :: "(string \<times> pyobj) list \<Rightarrow> json py" where
  "jsonify d = map_sum id sort_json (py_to_json (PyDict d))"

section \<open>The handler\<close>

text \<open>
  The \<^verbatim>\<open>try\<close> block of lines 78--91, and the handler with its
  \<^verbatim>\<open>except geoip2.errors.AddressNotFoundError\<close> branch. Every other exception
  leaves the handler (Flask answers it with an internal server error).
\<close>

definition select_ip :: "string \<Rightarrow> string option \<Rightarrow> string" where
  "select_ip remote_addr ip_address =
     (case ip_address of
        Some a \<Rightarrow> if a \<noteq> [] then a else remote_addr
      | None \<Rightarrow> remote_addr)"

definition geoip_try ::
  "mmdb_decoder \<Rightarrow> filesystem \<Rightarrow> string \<Rightarrow> lookup_state \<Rightarrow> json py \<times> lookup_state" where
  "geoip_try decode fs ip st =
     (let st1 = app_logger INFO (LogText (''looking up IP address: '' @ ip)) st;
          (r, st2) = get_db_reader decode fs st1
      in (case py_bind r (\<lambda>geoip_reader.
                 py_bind (reader_city geoip_reader ip) (\<lambda>result.
                   py_bind (build_response result ip) (\<lambda>response.
                     py_bind (json_dumps response) (\<lambda>text. Inr (response, text))))) of
            Inl e \<Rightarrow> (Inl e, st2)
          | Inr (response, text) \<Rightarrow>
              (jsonify response,
               app_logger INFO (LogJson (''returning response: '' @ [CHR 0x0A]) text) st2)))"

text \<open>
  Line 94 reads \<^verbatim>\<open>e.message\<close>. The exceptions of Python 3 have no attribute
  \<^verbatim>\<open>message\<close> (\<^verbatim>\<open>BaseException.message\<close> was removed by PEP 352), and the
  \<^verbatim>\<open>geoip2.errors\<close> classes define none, so the lookup raises
  \<^verbatim>\<open>AttributeError\<close> with the text CPython gives it.
\<close>

definition exc_message_attr :: "py_exc \<Rightarrow> pyobj py" where
  "exc_message_attr e =
     Inl (AttributeError (quoted (py_exc_name e) @ '' object has no attribute '' @ quoted ''message''))"

text \<open>The dict \<^verbatim>\<open>{'error': {'message': ...}}\<close> of line 94.\<close>

definition error_response :: "pyobj \<Rightarrow> (string \<times> pyobj) list" where
  "error_response message = [(''error'', PyDict [(''message'', message)])]"

definition geoip ::
  "mmdb_decoder \<Rightarrow> filesystem \<Rightarrow> string \<Rightarrow> string option \<Rightarrow> lookup_state \<Rightarrow>
   json py \<times> lookup_state" where
  "geoip decode fs remote_addr ip_address st =
     (let ip = select_ip remote_addr ip_address;
          (r, st') = geoip_try decode fs ip st
      in (case r of
            Inl e \<Rightarrow>
              (case e of
                 AddressNotFoundError m \<Rightarrow>
                   (py_bind (exc_message_attr e) (\<lambda>message. jsonify (error_response message)),
                    app_logger WARNING (LogText (''Unable find ip address: '' @ m)) st')
               | _ \<Rightarrow> (Inl e, st'))
          | Inr j \<Rightarrow> (Inr j, st')))"

text \<open>
  Flask pushes a new application context, with an empty \<^verbatim>\<open>g\<close>, for every
  request; \<open>serve_request\<close> is one request so served, and \<open>geoip_run\<close> a sequence
  of requests, the reader counter carried from one to the next.
\<close>

definition app_context_push :: "lookup_state \<Rightarrow> lookup_state" where
  "app_context_push st = st\<lparr>req_g := \<lparr>g_db_reader = None\<rparr>\<rparr>"

definition serve_request ::
  "mmdb_decoder \<Rightarrow> filesystem \<Rightarrow> string \<Rightarrow> string option \<Rightarrow> lookup_state \<Rightarrow>
   json py \<times> lookup_state" where
  "serve_request decode fs remote_addr ip_address st =
     geoip decode fs remote_addr ip_address (app_context_push st)"

fun geoip_run ::
  "mmdb_decoder \<Rightarrow> filesystem \<Rightarrow> (string \<times> string option) list \<Rightarrow> lookup_state \<Rightarrow>
   json py list \<times> lookup_state" where
  "geoip_run decode fs [] st = ([], st)"
| "geoip_run decode fs ((ra, ia) # reqs) st =
     (let (r, st') = serve_request decode fs ra ia st;
          (rs, st'') = geoip_run decode fs reqs st'
      in (r # rs, st''))"

section \<open>Lemmas\<close>

lemma app_logger_fields [simp]:
  "req_g (app_logger lvl msg st) = req_g st"
  "open_attempts (app_logger lvl msg st) = open_attempts st"
  "app_log (app_logger lvl msg st) = app_log st @ [\<lparr>lr_level = lvl, lr_msg = msg\<rparr>]"
  by (simp_all add: app_logger_def)

lemma get_db_reader_g [simp]: "req_g (snd (get_db_reader decode fs st)) = req_g st"
  by (simp add: get_db_reader_def split: option.split)

lemma get_db_reader_fst:
  "fst (get_db_reader decode fs st) =
     (case g_db_reader (req_g st) of Some rd \<Rightarrow> Inr rd | None \<Rightarrow> open_reader decode fs DB_FILE_LOCATION)"
  by (simp add: get_db_reader_def split: option.split)

text \<open>The try block's answer, with the bookkeeping of the log left out.\<close>

lemma geoip_try_fst:
  "fst (geoip_try decode fs ip st) =
     py_bind (fst (get_db_reader decode fs st)) (\<lambda>geoip_reader.
       py_bind (reader_city geoip_reader ip) (\<lambda>result.
         py_bind (build_response result ip) (\<lambda>response.
           py_bind (json_dumps response) (\<lambda>_. jsonify response))))"
  by (simp add: geoip_try_def Let_def split_beta get_db_reader_fst py_bind_def split: sum.split)

lemma geoip_try_g [simp]: "req_g (snd (geoip_try decode fs ip st)) = req_g st"
  by (simp add: geoip_try_def Let_def split_beta split: sum.split)

lemma geoip_try_opens:
  "open_attempts (snd (geoip_try decode fs ip st)) = open_attempts (snd (get_db_reader decode fs st))"
  by (simp add: geoip_try_def Let_def split_beta get_db_reader_def split: sum.split option.split)

text \<open>The handler's answer is the try block's, with the not-found exception caught.\<close>

lemma geoip_fst:
  "fst (geoip decode fs ra ia st) =
     (case fst (geoip_try decode fs (select_ip ra ia) st) of
        Inl e \<Rightarrow>
          (case e of
             AddressNotFoundError m \<Rightarrow>
               Inl (AttributeError (quoted ''AddressNotFoundError'' @ '' object has no attribute '' @ quoted ''message''))
           | _ \<Rightarrow> Inl e)
      | Inr j \<Rightarrow> Inr j)"
  by (simp add: geoip_def Let_def split_beta exc_message_attr_def py_bind_def
      split: sum.split py_exc.split)

lemma geoip_snd:
  "snd (geoip decode fs ra ia st) =
     (case fst (geoip_try decode fs (select_ip ra ia) st) of
        Inl (AddressNotFoundError m) \<Rightarrow>
          app_logger WARNING (LogText (''Unable find ip address: '' @ m))
            (snd (geoip_try decode fs (select_ip ra ia) st))
      | _ \<Rightarrow> snd (geoip_try decode fs (select_ip ra ia) st))"
  by (simp add: geoip_def Let_def split_beta split: sum.split py_exc.split)

lemma geoip_g [simp]: "req_g (snd (geoip decode fs ra ia st)) = req_g st"
  by (simp add: geoip_snd split: sum.split py_exc.split)

lemma geoip_opens:
  "g_db_reader (req_g st) = None \<Longrightarrow>
   open_attempts (snd (geoip decode fs ra ia st)) = Suc (open_attempts st)"
  by (simp add: geoip_snd geoip_try_opens get_db_reader_def split: sum.split py_exc.split)

text \<open>What \<^verbatim>\<open>jsonify\<close> returns is an object with the dict's keys, sorted.\<close>

lemma jsonify_keys:
  "jsonify d = Inr j \<Longrightarrow> \<exists>js. j = JObj js \<and> map fst js = sort (map fst d)"
  by (cases "py_items_to_json d")
    (auto simp: jsonify_def py_bind_def map_fst_sort_key map_fst_sort_json_items
      dest: py_items_to_json_keys)

text \<open>With no cached reader, the result of the try block, by the engine's answer.\<close>

lemma geoip_try_fresh:
  assumes "g_db_reader (req_g st) = None" and "fs DB_FILE_LOCATION = Some content"
    and "decode content = Some q"
  shows "fst (geoip_try decode fs ip st) =
     (case q ip of
        Found r \<Rightarrow> py_bind (json_dumps (spec_response r ip)) (\<lambda>_. jsonify (spec_response r ip))
      | NotInDatabase \<Rightarrow> Inl (AddressNotFoundError (not_found_message ip))
      | InvalidAddress \<Rightarrow>
          Inl (ValueError (quoted ip @ '' does not appear to be an IPv4 or IPv6 address'')))"
  using assms
  by (simp add: geoip_try_fst get_db_reader_fst open_reader_def reader_city_def
      build_response_spec split: query_outcome.split)

text \<open>A response whose fields are leaves serialises, keeping its keys.\<close>

lemma jsonify_spec_response:
  assumes "list_all (\<lambda>(k, p). is_leaf (field_value r p)) JSON_MAPPING"
  shows "\<exists>js. json_dumps (spec_response r ip) = Inr (JObj js) \<and> map fst js = response_keys \<and>
     jsonify (spec_response r ip) = Inr (JObj (sort_key fst js))"
proof -
  have leaves: "\<forall>v \<in> snd ` set (spec_response r ip). is_leaf v"
    using assms by (auto simp: spec_response_def list_all_iff)
  then obtain js where js: "py_items_to_json (spec_response r ip) = Inr js"
    using py_items_to_json_leaves by blast
  then have "map fst js = response_keys"
    by (simp add: py_items_to_json_keys spec_response_keys)
  moreover have "sort_json_items js = js" by (rule py_items_to_json_leaves_sorted [OF leaves js])
  ultimately show ?thesis using js by (simp add: jsonify_def json_dumps_def)
qed

lemma serve_request_opens:
  "open_attempts (snd (serve_request decode fs ra ia st)) = Suc (open_attempts st)"
  by (simp add: serve_request_def geoip_opens app_context_push_def)

lemma geoip_run_opens:
  "open_attempts (snd (geoip_run decode fs reqs st)) = open_attempts st + length reqs"
  by (induction reqs arbitrary: st) (auto simp: split_beta serve_request_opens)

text \<open>Serialising the response raises nothing but \<^verbatim>\<open>TypeError\<close>.\<close>

lemma serialise_exc:
  "py_bind (json_dumps d) (\<lambda>_. jsonify d) = Inl e \<Longrightarrow>
   e = TypeError ''Object of type object is not JSON serializable''"
proof -
  assume "py_bind (json_dumps d) (\<lambda>_. jsonify d) = Inl e"
  then have "py_to_json (PyDict d) = Inl e"
    by (cases "py_to_json (PyDict d)") (auto simp: json_dumps_def jsonify_def)
  then show ?thesis by (rule py_to_json_exc(1))
qed

text \<open>The records the try block writes, with no cached reader and a database that opens.\<close>

lemma geoip_try_log_fresh:
  assumes "g_db_reader (req_g st) = None" and "fs DB_FILE_LOCATION = Some content"
    and "decode content = Some q"
  shows "app_log (snd (geoip_try decode fs ip st)) = app_log st @
    [\<lparr>lr_level = INFO, lr_msg = LogText (''looking up IP address: '' @ ip)\<rparr>,
     \<lparr>lr_level = INFO, lr_msg = LogText ''opening connection to database''\<rparr>] @
    (case q ip of
       Found r \<Rightarrow>
         (case json_dumps (spec_response r ip) of
            Inr text \<Rightarrow> [\<lparr>lr_level = INFO, lr_msg = LogJson (''returning response: '' @ [CHR 0x0A]) text\<rparr>]
          | Inl _ \<Rightarrow> [])
     | _ \<Rightarrow> [])"
  using assms
  by (simp add: geoip_try_def Let_def split_beta get_db_reader_def open_reader_def reader_city_def
      build_response_spec split: query_outcome.split sum.split)

lemma geoip_try_info_or_above:
  "info_or_above (app_log (snd (geoip_try decode fs ip st))) = info_or_above (app_log st)"
  by (simp add: geoip_try_def Let_def split_beta get_db_reader_def info_or_above_def
      split: sum.split option.split)

lemma serve_request_info_or_above:
  "info_or_above (app_log (snd (serve_request decode fs ra ia st))) = info_or_above (app_log st)"
  by (simp add: serve_request_def geoip_snd geoip_try_info_or_above app_context_push_def
      split: sum.split py_exc.split) (simp add: info_or_above_def)

section \<open>Properties of the handler\<close>

text \<open>
  C1: the success path refines the abstract response. With no cached reader, a database
  file that opens, an address the engine finds, and leaf values in the record's fields,
  the handler answers with the serialisation of \<open>spec_response\<close>: the fields resolved
  along their paths (\<^verbatim>\<open>''\<close> where missing), the address and the two constants,
  under exactly the twelve documented keys, which \<^verbatim>\<open>jsonify\<close> sorts.
\<close>

theorem geoip_success:
  assumes "g_db_reader (req_g st) = None" and "fs DB_FILE_LOCATION = Some content"
    and "decode content = Some q" and "q (select_ip ra ia) = Found r"
    and "list_all (\<lambda>(k, p). is_leaf (field_value r p)) JSON_MAPPING"
  shows "\<exists>js. fst (geoip decode fs ra ia st) = Inr (JObj js) \<and>
    jsonify (spec_response r (select_ip ra ia)) = Inr (JObj js) \<and> map fst js = sort response_keys"
proof -
  obtain js where js: "json_dumps (spec_response r (select_ip ra ia)) = Inr (JObj js)"
    "map fst js = response_keys"
    "jsonify (spec_response r (select_ip ra ia)) = Inr (JObj (sort_key fst js))"
    using jsonify_spec_response [OF assms(5)] by blast
  have "fst (geoip_try decode fs (select_ip ra ia) st) = Inr (JObj (sort_key fst js))"
    using geoip_try_fresh [where decode = decode and fs = fs and st = st, OF assms(1-3)] assms(4) js by simp
  with js show ?thesis by (simp add: geoip_fst map_fst_sort_key)
qed

text \<open>
  C5: an address the database does not hold is not answered with the specification's
  not-found document. The handler catches \<^verbatim>\<open>AddressNotFoundError\<close> and logs
  the warning of line 93, but line 94 reads \<^verbatim>\<open>e.message\<close>, which a Python 3
  exception lacks: the except branch itself raises \<^verbatim>\<open>AttributeError\<close>, which
  leaves the handler.
\<close>

theorem geoip_not_found:
  assumes "g_db_reader (req_g st) = None" and "fs DB_FILE_LOCATION = Some content"
    and "decode content = Some q" and "q (select_ip ra ia) = NotInDatabase"
  shows "fst (geoip decode fs ra ia st) =
    Inl (AttributeError (quoted ''AddressNotFoundError'' @ '' object has no attribute '' @ quoted ''message''))"
  using geoip_try_fresh [where decode = decode and fs = fs and st = st, OF assms(1-3)] assms(4)
  by (simp add: geoip_fst)

text \<open>
  C6: every answer of the handler is a success document: whatever the request, the
  database and the request context, the handler either raises or answers a JSON object
  with exactly the twelve documented keys (in \<^verbatim>\<open>jsonify\<close>'s sorted order). In
  particular it never answers the specification's \<^verbatim>\<open>{"error": {"message": ...}}\<close>.
\<close>

theorem geoip_answers_success_keys:
  assumes "fst (geoip decode fs ra ia st) = Inr j"
  shows "\<exists>js. j = JObj js \<and> map fst js = sort response_keys"
proof -
  have "fst (geoip_try decode fs (select_ip ra ia) st) = Inr j"
    using assms by (simp add: geoip_fst split: sum.splits py_exc.splits)
  then obtain result where "jsonify (spec_response result (select_ip ra ia)) = Inr j"
    by (auto simp: geoip_try_fst py_bind_eq_Inr build_response_spec)
  from jsonify_keys [OF this] show ?thesis by (simp add: spec_response_keys)
qed

text \<open>
  C7: the cache slot \<^verbatim>\<open>g._db_reader\<close> is never written: \<^verbatim>\<open>get_db_reader\<close>
  leaves \<^verbatim>\<open>g\<close> as it found it, and every request of a run opens a new reader,
  so \<open>n\<close> requests open \<open>n\<close> readers.
\<close>

theorem geoip_run_reopens:
  "req_g (snd (get_db_reader decode fs st)) = req_g st \<and>
   open_attempts (snd (geoip_run decode fs reqs st)) = open_attempts st + length reqs"
  by (simp add: geoip_run_opens)

text \<open>
  C8: a missing database file is not caught: \<^verbatim>\<open>FileNotFoundError\<close> leaves the
  handler.
\<close>

theorem geoip_missing_db:
  assumes "g_db_reader (req_g st) = None" and "fs DB_FILE_LOCATION = None"
  shows "fst (geoip decode fs ra ia st) =
    Inl (FileNotFoundError (''[Errno 2] No such file or directory: '' @ quoted DB_FILE_LOCATION))"
  using assms by (simp add: geoip_fst geoip_try_def get_db_reader_def open_reader_def)

text \<open>
  C9: a malformed address is not mapped to an error response: the engine's
  \<^verbatim>\<open>ValueError\<close> leaves the handler.
\<close>

theorem geoip_invalid_address:
  assumes "g_db_reader (req_g st) = None" and "fs DB_FILE_LOCATION = Some content"
    and "decode content = Some q" and "q (select_ip ra ia) = InvalidAddress"
  shows "\<exists>m. fst (geoip decode fs ra ia st) = Inl (ValueError m)"
  using geoip_try_fresh [where decode = decode and fs = fs and st = st, OF assms(1-3)] assms(4) by (simp add: geoip_fst)

section \<open>Properties of the log\<close>

text \<open>
  C26: the log of a request (lines 69, 78, 90, 93). With no cached reader and a database
  that opens, a request writes the address it looks up, then
  \<^verbatim>\<open>opening connection to database\<close> (every request: the reader is never
  cached), then the indented response for a found address, or the warning with the
  engine's message for an address not in the database, or nothing more when the lookup
  raises.
\<close>

theorem geoip_request_log:
  assumes "g_db_reader (req_g st) = None" and "fs DB_FILE_LOCATION = Some content"
    and "decode content = Some q"
  shows "app_log (snd (geoip decode fs ra ia st)) = app_log st @
    [\<lparr>lr_level = INFO, lr_msg = LogText (''looking up IP address: '' @ select_ip ra ia)\<rparr>,
     \<lparr>lr_level = INFO, lr_msg = LogText ''opening connection to database''\<rparr>] @
    (case q (select_ip ra ia) of
       Found r \<Rightarrow>
         (case json_dumps (spec_response r (select_ip ra ia)) of
            Inr text \<Rightarrow> [\<lparr>lr_level = INFO, lr_msg = LogJson (''returning response: '' @ [CHR 0x0A]) text\<rparr>]
          | Inl _ \<Rightarrow> [])
     | NotInDatabase \<Rightarrow>
         [\<lparr>lr_level = WARNING,
           lr_msg = LogText (''Unable find ip address: '' @ not_found_message (select_ip ra ia))\<rparr>]
     | InvalidAddress \<Rightarrow> [])"
proof -
  let ?ip = "select_ip ra ia"
  note fr = geoip_try_fresh [where decode = decode and fs = fs and st = st and ip = ?ip, OF assms]
  note lg = geoip_try_log_fresh [where decode = decode and fs = fs and st = st and ip = ?ip, OF assms]
  show ?thesis
  proof (cases "q ?ip")
    case (Found r)
    show ?thesis
    proof (cases "json_dumps (spec_response r ?ip)")
      case (Inl e)
      with fr Found have tr: "fst (geoip_try decode fs ?ip st) = Inl e" by simp
      then have "e = TypeError ''Object of type object is not JSON serializable''"
        using fr Found by (auto dest: serialise_exc)
      with tr lg Found Inl show ?thesis by (simp add: geoip_snd)
    next
      case (Inr doc)
      with fr Found have "fst (geoip_try decode fs ?ip st) = Inr (sort_json doc)"
        by (simp add: json_dumps_def jsonify_def)
      with lg Found Inr show ?thesis by (simp add: geoip_snd)
    qed
  qed (use fr lg in \<open>simp_all add: geoip_snd\<close>)
qed

text \<open>
  C27: every record the handler writes is at \<^verbatim>\<open>INFO\<close> or above, whatever the
  requests: a log that starts so stays so over any run, and the level
  \<^verbatim>\<open>setup_logging\<close> chooses hides none of them, so \<^verbatim>\<open>--verbose\<close> changes
  nothing in what the code of \<^verbatim>\<open>src/app.py\<close> logs.
\<close>

theorem geoip_run_log_levels:
  assumes "info_or_above (app_log st)"
  shows "info_or_above (app_log (snd (geoip_run decode fs reqs st))) \<and>
    emitted (setup_logging v) (app_log (snd (geoip_run decode fs reqs st))) =
      app_log (snd (geoip_run decode fs reqs st))"
proof -
  have "info_or_above (app_log (snd (geoip_run decode fs reqs st)))"
    using assms
    by (induction reqs arbitrary: st) (auto simp: split_beta serve_request_info_or_above)
  then show ?thesis by (simp add: emitted_info_or_above)
qed

section \<open>A record that does not serialise\<close>

text \<open>
  C29: when a path of the table reaches an object instead of a leaf, the response dict
  holds that object and \<^verbatim>\<open>json.dumps\<close> of line 90 raises \<^verbatim>\<open>TypeError\<close>: the
  handler does not catch it (Flask answers 500), and the response is never logged.
\<close>

theorem geoip_unserialisable:
  assumes "g_db_reader (req_g st) = None" and "fs DB_FILE_LOCATION = Some content"
    and "decode content = Some q" and "q (select_ip ra ia) = Found r"
    and "(k, p) \<in> set JSON_MAPPING" and "field_value r p = PyObj attrs"
  shows "fst (geoip decode fs ra ia st) =
      Inl (TypeError ''Object of type object is not JSON serializable'') \<and>
    app_log (snd (geoip decode fs ra ia st)) = app_log st @
      [\<lparr>lr_level = INFO, lr_msg = LogText (''looking up IP address: '' @ select_ip ra ia)\<rparr>,
       \<lparr>lr_level = INFO, lr_msg = LogText ''opening connection to database''\<rparr>]"
proof -
  let ?ip = "select_ip ra ia"
  have "(k, PyObj attrs) \<in> set (spec_response r ?ip)"
    using assms(5,6) by (force simp: spec_response_def)
  then have dump: "json_dumps (spec_response r ?ip) =
      Inl (TypeError ''Object of type object is not JSON serializable'')"
    by (simp add: json_dumps_def py_items_to_json_obj)
  have tr: "fst (geoip_try decode fs ?ip st) =
      Inl (TypeError ''Object of type object is not JSON serializable'')"
    using geoip_try_fresh [where decode = decode and fs = fs and st = st and ip = ?ip, OF assms(1-3)]
      assms(4) dump by simp
  have "app_log (snd (geoip_try decode fs ?ip st)) = app_log st @
      [\<lparr>lr_level = INFO, lr_msg = LogText (''looking up IP address: '' @ ?ip)\<rparr>,
       \<lparr>lr_level = INFO, lr_msg = LogText ''opening connection to database''\<rparr>]"
    using geoip_try_log_fresh [where decode = decode and fs = fs and st = st and ip = ?ip, OF assms(1-3)]
      assms(4) dump by simp
  with tr show ?thesis by (simp add: geoip_fst geoip_snd)
qed

end
