(* ===== verification/Routing.thy ===== *)
theory Routing
  imports Lookup
begin

text \<open>
  The HTTP surface of \<^verbatim>\<open>src/app.py\<close>: the two rules of lines 73--74,
  \<^verbatim>\<open>@app.route('/geoip/')\<close> and \<^verbatim>\<open>@app.route('/geoip/<ip_address>')\<close>, matched
  the way Flask's router (werkzeug) matches them, and the HTTP answer Flask makes of what
  the view returns. The rules accept \<^verbatim>\<open>GET\<close> (the default), to which Flask adds
  \<^verbatim>\<open>HEAD\<close> (the view runs, the body is dropped) and \<^verbatim>\<open>OPTIONS\<close> (answered by
  Flask without running the view); any other method is refused with 405. The
  \<^verbatim>\<open><ip_address>\<close> placeholder uses the default converter, which matches one or
  more characters other than \<^verbatim>\<open>/\<close>. A request for \<^verbatim>\<open>/geoip\<close> with a
  method the rule accepts is redirected to \<^verbatim>\<open>/geoip/\<close> (strict slashes), a path that
  matches once its doubled slashes are merged is redirected to the merged path
  (\<^verbatim>\<open>merge_slashes\<close>), both with 308 as werkzeug 2.2 and later answer; every other
  path is 404. An exception leaving the view is answered with 500. Paths are the decoded
  request paths.
\<close>

section \<open>Requests and rules\<close>

datatype http_method = GET | HEAD | POST | PUT | PATCH | DELETE | OPTIONS

definition geoip_prefix :: string where
  "geoip_prefix = ''/geoip/''"

text \<open>Which rule a path matches, and the value of \<^verbatim>\<open>ip_address\<close> it gives the view.\<close>

definition match_rules :: "string \<Rightarrow> string option option" where
  "match_rules p =
     (if p = geoip_prefix then Some None
      else if take (length geoip_prefix) p = geoip_prefix \<and> drop (length geoip_prefix) p \<noteq> [] \<and>
              CHR ''/'' \<notin> set (drop (length geoip_prefix) p)
      then Some (Some (drop (length geoip_prefix) p))
      else None)"

text \<open>
  The methods the rules accept: \<^verbatim>\<open>GET\<close>, and the \<^verbatim>\<open>HEAD\<close> and
  \<^verbatim>\<open>OPTIONS\<close> that Flask adds.
\<close>

definition rule_method :: "http_method \<Rightarrow> bool" where
  "rule_method m = (m = GET \<or> m = HEAD \<or> m = OPTIONS)"

text \<open>
  One matching attempt of werkzeug's state machine (werkzeug 2.2 and later): a rule
  matches with a method it accepts, or matches with another method (werkzeug collects
  the methods for a 405), or the path lacks only the trailing slash of
  \<^verbatim>\<open>/geoip/\<close> with a method the rule accepts (strict slashes: a redirect), or
  nothing matches.
\<close>

datatype match_attempt = Matched "string option" | MethodMismatch | SlashRequired | NoMatch

definition match_attempt :: "http_method \<Rightarrow> string \<Rightarrow> match_attempt" where
  "match_attempt m p =
     (case match_rules p of
        Some a \<Rightarrow> if rule_method m then Matched a else MethodMismatch
      | None \<Rightarrow> if p = ''/geoip'' \<and> rule_method m then SlashRequired else NoMatch)"

text \<open>
  When nothing matches, werkzeug tries again with the slashes merged
  (\<^verbatim>\<open>re.sub("/{2,}?", "/", path)\<close>, which replaces each pair of slashes, left to
  right, by one) and redirects to the merged path when that matches.
\<close>

fun merge_slash_pairs :: "string \<Rightarrow> string" where
  "merge_slash_pairs (a # b # cs) =
     (if a = CHR ''/'' \<and> b = CHR ''/'' then CHR ''/'' # merge_slash_pairs cs
      else a # merge_slash_pairs (b # cs))"
| "merge_slash_pairs cs = cs"

datatype route_result =
    RouteView "string option"
  | RouteOptions
  | RouteRedirect string
  | RouteMethodNotAllowed
  | RouteNotFound

definition route :: "http_method \<Rightarrow> string \<Rightarrow> route_result" where
  "route m p =
     (case match_attempt m p of
        Matched a \<Rightarrow> if m = OPTIONS then RouteOptions else RouteView a
      | MethodMismatch \<Rightarrow> RouteMethodNotAllowed
      | SlashRequired \<Rightarrow> RouteRedirect (p @ ''/'')
      | NoMatch \<Rightarrow>
          (let q = merge_slash_pairs p
           in case match_attempt m q of
                Matched _ \<Rightarrow> RouteRedirect q
              | MethodMismatch \<Rightarrow> RouteMethodNotAllowed
              | SlashRequired \<Rightarrow> RouteRedirect (q @ ''/'')
              | NoMatch \<Rightarrow> RouteNotFound))"

text \<open>\<^verbatim>\<open>url_for('geoip', ip_address=...)\<close>: the path of each rule.\<close>

definition url_for_geoip :: "string option \<Rightarrow> string" where
  "url_for_geoip a = (case a of None \<Rightarrow> geoip_prefix | Some ip \<Rightarrow> geoip_prefix @ ip)"

definition valid_route_arg :: "string option \<Rightarrow> bool" where
  "valid_route_arg a = (case a of None \<Rightarrow> True | Some ip \<Rightarrow> ip \<noteq> [] \<and> CHR ''/'' \<notin> set ip)"

section \<open>Answers\<close>

record http_reply =
  reply_status :: nat
  reply_body :: "json option"

definition view_reply :: "http_method \<Rightarrow> json py \<Rightarrow> http_reply" where
  "view_reply m r =
     (case r of
        Inr j \<Rightarrow> \<lparr>reply_status = 200, reply_body = (if m = HEAD then None else Some j)\<rparr>
      | Inl _ \<Rightarrow> \<lparr>reply_status = 500, reply_body = None\<rparr>)"

definition empty_reply :: "nat \<Rightarrow> http_reply" where
  "empty_reply s = \<lparr>reply_status = s, reply_body = None\<rparr>"

text \<open>One HTTP request, from the router to the answer; the view runs in a fresh context.\<close>

definition http_dispatch ::
  "mmdb_decoder \<Rightarrow> filesystem \<Rightarrow> http_method \<Rightarrow> string \<Rightarrow> string \<Rightarrow> lookup_state \<Rightarrow>
   http_reply \<times> lookup_state" where
  "http_dispatch decode fs m p remote_addr st =
     (case route m p of
        RouteView a \<Rightarrow>
          (let (r, st') = serve_request decode fs remote_addr a st in (view_reply m r, st'))
      | RouteOptions \<Rightarrow> (empty_reply 200, st)
      | RouteRedirect _ \<Rightarrow> (empty_reply 308, st)
      | RouteMethodNotAllowed \<Rightarrow> (empty_reply 405, st)
      | RouteNotFound \<Rightarrow> (empty_reply 404, st))"

section \<open>Lemmas\<close>

lemma geoip_prefix_append_iff:
  "(p = geoip_prefix @ ip) \<longleftrightarrow>
   (take (length geoip_prefix) p = geoip_prefix \<and> drop (length geoip_prefix) p = ip)"
  by (metis append_eq_conv_conj)

lemma match_rules_Some_iff:
  "match_rules p = Some a \<longleftrightarrow> valid_route_arg a \<and> p = url_for_geoip a"
proof (cases a)
  case None
  then show ?thesis
    by (auto simp: match_rules_def valid_route_arg_def url_for_geoip_def)
next
  case (Some ip)
  have "geoip_prefix @ ip \<noteq> geoip_prefix" if "ip \<noteq> []" using that by simp
  with Some show ?thesis
    by (auto simp: match_rules_def valid_route_arg_def url_for_geoip_def geoip_prefix_append_iff)
qed

lemma route_RouteView_iff:
  "route m p = RouteView a \<longleftrightarrow> (m = GET \<or> m = HEAD) \<and> match_rules p = Some a"
  by (auto simp: route_def match_attempt_def rule_method_def Let_def
      split: option.split match_attempt.split if_splits)

lemma http_dispatch_view:
  "route m p = RouteView a \<Longrightarrow>
   http_dispatch decode fs m p remote_addr st =
     (view_reply m (fst (serve_request decode fs remote_addr a st)),
      snd (serve_request decode fs remote_addr a st))"
  by (simp add: http_dispatch_def split_beta)

text \<open>What one request answers when the database file opens, by the engine's answer.\<close>

lemma serve_request_opened:
  assumes "fs DB_FILE_LOCATION = Some content" and "decode content = Some q"
  shows "fst (serve_request decode fs ra ia st) =
     (case q (select_ip ra ia) of
        Found r \<Rightarrow>
          py_bind (json_dumps (spec_response r (select_ip ra ia)))
            (\<lambda>_. jsonify (spec_response r (select_ip ra ia)))
      | NotInDatabase \<Rightarrow> Inl (AttributeError (quoted ''AddressNotFoundError'' @ '' object has no attribute '' @ quoted ''message''))
      | InvalidAddress \<Rightarrow>
          Inl (ValueError (quoted (select_ip ra ia) @ '' does not appear to be an IPv4 or IPv6 address'')))"
proof -
  have "g_db_reader (req_g (app_context_push st)) = None" by (simp add: app_context_push_def)
  from geoip_try_fresh [where decode = decode and fs = fs and st = "app_context_push st"
      and ip = "select_ip ra ia", OF this assms] show ?thesis
    by (auto simp: serve_request_def geoip_fst dest: serialise_exc split: query_outcome.split sum.split)
qed

section \<open>Properties of the HTTP surface\<close>

text \<open>
  C24: the handler's fallback to the client's address happens exactly for
  \<^verbatim>\<open>/geoip/\<close>: the router never passes an empty \<^verbatim>\<open>ip_address\<close>, so the
  \<^verbatim>\<open>if ip_address\<close> test of line 76 only separates the two rules, and the address
  looked up for \<^verbatim>\<open>/geoip/<ip>\<close> is exactly \<open>ip\<close>.
\<close>

theorem route_selects_address:
  assumes "route m p = RouteView a"
  shows "select_ip remote_addr a = (case a of None \<Rightarrow> remote_addr | Some ip \<Rightarrow> ip)"
  using assms by (auto simp: route_RouteView_iff match_rules_Some_iff valid_route_arg_def
      select_ip_def split: option.split)

text \<open>
  C25: over HTTP, every failed lookup is a bare 500 Internal Server Error: an address the
  database does not hold (the not-found branch raises on \<^verbatim>\<open>e.message\<close>), a
  malformed address (the specification asks for a distinct error response), and a
  missing database file, all alike.
\<close>

theorem http_lookup_errors:
  assumes "match_rules p = Some a"
  shows "(fs DB_FILE_LOCATION = Some content \<and> decode content = Some q \<and>
      q (select_ip remote_addr a) = NotInDatabase \<longrightarrow>
      fst (http_dispatch decode fs GET p remote_addr st) = empty_reply 500) \<and>
    (fs DB_FILE_LOCATION = Some content \<and> decode content = Some q \<and>
      q (select_ip remote_addr a) = InvalidAddress \<longrightarrow>
      fst (http_dispatch decode fs GET p remote_addr st) = empty_reply 500) \<and>
    (fs DB_FILE_LOCATION = None \<longrightarrow> fst (http_dispatch decode fs GET p remote_addr st) = empty_reply 500)"
proof -
  have view: "route GET p = RouteView a" using assms by (simp add: route_RouteView_iff)
  have missing: "fst (serve_request decode fs remote_addr a st) =
      Inl (FileNotFoundError (''[Errno 2] No such file or directory: '' @ quoted DB_FILE_LOCATION))"
    if "fs DB_FILE_LOCATION = None"
    using that by (simp add: serve_request_def geoip_fst geoip_try_def get_db_reader_def
        open_reader_def app_context_push_def)
  show ?thesis
    using http_dispatch_view [OF view] serve_request_opened missing
    by (auto simp: view_reply_def empty_reply_def)
qed

end
