(* ===== verification/Provisioner.thy ===== *)
theory Provisioner
  imports Logging
begin

text \<open>
  The database provisioner of \<^verbatim>\<open>src/app.py\<close>, \<^verbatim>\<open>download_fresh_db\<close>
  (lines 50--64). The filesystem is explicit state (\<open>filesystem\<close> of the prelude); a
  file opened for writing (\<^verbatim>\<open>open(p, 'wb')\<close>) truncates the file and gives a
  handle whose writes go to a buffer until \<^verbatim>\<open>flush\<close> or the end of the
  \<^verbatim>\<open>with\<close> block moves them to the file. The network is a parameter: what
  \<^verbatim>\<open>requests.get(DB_FILE_URL, stream=True)\<close> answers, a response (status, the
  body bytes received, whether the connection broke after them) or a raised exception.
  Decompression (\<^verbatim>\<open>gzip.open(...).read()\<close>) is a parameter too: the bytes it
  returns, or the exception it raises (\<^verbatim>\<open>BadGzipFile\<close> for a file that is not
  gzip, \<^verbatim>\<open>EOFError\<close> for a truncated one). \<open>iter_content\<close> cuts the body into the chunks of
  1024 bytes that \<^verbatim>\<open>req.iter_content(chunk_size=1024)\<close> yields;
  \<open>write_chunks\<close> is the loop of lines 56--59; \<open>stream_to_file\<close> the first
  \<^verbatim>\<open>with\<close> block, \<open>decompress_db\<close> the second. \<open>download_fresh_db\<close> also returns
  the records it logs (lines 51 and 61).
\<close>

section \<open>The outside world\<close>

record http_response =
  resp_status :: nat
  resp_body :: bytes
  resp_broken :: bool

type_synonym network = "string \<Rightarrow> http_response py"

type_synonym gunzip = "bytes \<Rightarrow> bytes py"

definition file_content :: "filesystem \<Rightarrow> path \<Rightarrow> bytes" where
  "file_content fs p = (case fs p of None \<Rightarrow> [] | Some c \<Rightarrow> c)"

section \<open>Files opened for writing\<close>

record fhandle =
  fh_path :: path
  fh_buf :: bytes

definition open_wb :: "path \<Rightarrow> filesystem \<Rightarrow> filesystem \<times> fhandle" where
  "open_wb p fs = (fs(p \<mapsto> []), \<lparr>fh_path = p, fh_buf = []\<rparr>)"

definition fh_write :: "fhandle \<Rightarrow> bytes \<Rightarrow> fhandle" where
  "fh_write f data = f\<lparr>fh_buf := fh_buf f @ data\<rparr>"

definition fh_flush :: "filesystem \<Rightarrow> fhandle \<Rightarrow> filesystem \<times> fhandle" where
  "fh_flush fs f =
     (fs(fh_path f \<mapsto> file_content fs (fh_path f) @ fh_buf f), f\<lparr>fh_buf := []\<rparr>)"

text \<open>Leaving a \<^verbatim>\<open>with\<close> block closes the file, flushing what is buffered.\<close>

definition fh_close :: "filesystem \<Rightarrow> fhandle \<Rightarrow> filesystem" where
  "fh_close fs f = fst (fh_flush fs f)"

section \<open>Streaming the download\<close>

function iter_content :: "bytes \<Rightarrow> bytes list" where
  "iter_content bs = (if bs = [] then [] else take 1024 bs # iter_content (drop 1024 bs))"
  by pat_completeness auto
termination
  by (relation "measure length") auto

declare iter_content.simps [simp del]

text \<open>The body of the loop (lines 57--59): a non-empty chunk is written, then flushed.\<close>

definition write_chunk :: "filesystem \<Rightarrow> fhandle \<Rightarrow> bytes \<Rightarrow> filesystem \<times> fhandle" where
  "write_chunk fs f chunk = (if chunk \<noteq> [] then fh_flush fs (fh_write f chunk) else (fs, f))"

fun write_chunks :: "filesystem \<Rightarrow> fhandle \<Rightarrow> bytes list \<Rightarrow> filesystem \<times> fhandle" where
  "write_chunks fs f [] = (fs, f)"
| "write_chunks fs f (chunk # chunks) =
     (let (fs', f') = write_chunk fs f chunk in write_chunks fs' f' chunks)"

definition gzip_file_location :: path where
  "gzip_file_location = DB_FILE_LOCATION @ ''.gz''"

text \<open>
  The first \<^verbatim>\<open>with\<close> block: the chunks received are written; a connection that
  broke raises out of the loop after them, and the file is closed either way.
\<close>

definition stream_to_file :: "http_response \<Rightarrow> filesystem \<Rightarrow> unit py \<times> filesystem" where
  "stream_to_file req fs =
     (let (fs1, f) = open_wb gzip_file_location fs;
          (fs2, f2) = write_chunks fs1 f (iter_content (resp_body req));
          fs3 = fh_close fs2 f2
      in (if resp_broken req
          then Inl (ChunkedEncodingError ''Connection broken: IncompleteRead'')
          else Inr (), fs3))"

text \<open>
  The second \<^verbatim>\<open>with\<close> block: the database file is opened for writing, which
  truncates it, before the compressed file is read and decompressed.
\<close>

definition decompress_db :: "gunzip \<Rightarrow> filesystem \<Rightarrow> unit py \<times> filesystem" where
  "decompress_db gunzip fs =
     (let (fs1, f) = open_wb DB_FILE_LOCATION fs
      in (case gunzip (file_content fs1 gzip_file_location) of
            Inl e \<Rightarrow> (Inl e, fh_close fs1 f)
          | Inr data \<Rightarrow> (Inr (), fh_close fs1 (fh_write f data))))"

text \<open>
  The two records \<^verbatim>\<open>download_fresh_db\<close> writes through \<^verbatim>\<open>app.logger.info\<close>
  (lines 51 and 61).
\<close>

definition downloading_record :: log_record where
  "downloading_record = log_info (''downloading fresh database from: '' @ DB_FILE_URL)"

definition decompressing_record :: log_record where
  "decompressing_record = log_info ''decompressing database file...''"

text \<open>
  The whole function: its outcome, the filesystem it leaves, and the records it logged.
\<close>

definition download_fresh_db ::
  "network \<Rightarrow> gunzip \<Rightarrow> filesystem \<Rightarrow> unit py \<times> filesystem \<times> log_record list" where
  "download_fresh_db net gunzip fs =
     (let log1 = [downloading_record]
      in case net DB_FILE_URL of
           Inl e \<Rightarrow> (Inl e, fs, log1)
         | Inr req \<Rightarrow>
             (case stream_to_file req fs of
                (Inl e, fs') \<Rightarrow> (Inl e, fs', log1)
              | (Inr _, fs') \<Rightarrow>
                  (let log2 = log1 @ [decompressing_record];
                       (r, fs'') = decompress_db gunzip fs'
                   in (r, fs'', log2))))"

section \<open>Lemmas\<close>

lemma gzip_file_location_neq [simp]:
  "gzip_file_location \<noteq> DB_FILE_LOCATION" "DB_FILE_LOCATION \<noteq> gzip_file_location"
  by (simp_all add: gzip_file_location_def)

lemma file_content_upd [simp]:
  "file_content (fs(p \<mapsto> c)) q = (if q = p then c else file_content fs q)"
  by (simp add: file_content_def)

lemma iter_content_Nil [simp]: "iter_content [] = []"
  by (simp add: iter_content.simps)

lemma iter_content_Cons:
  "bs \<noteq> [] \<Longrightarrow> iter_content bs = take 1024 bs # iter_content (drop 1024 bs)"
  by (simp add: iter_content.simps)

text \<open>
  The loop from any handle on an open file: when some chunk is non-empty, what was
  buffered and all the chunks end up on disk and the buffer is empty.
\<close>

lemma write_chunks_gen:
  assumes "fs (fh_path f) = Some c"
  shows "write_chunks fs f cs =
    (if concat cs = [] then (fs, f)
     else (fs(fh_path f \<mapsto> c @ fh_buf f @ concat cs), f\<lparr>fh_buf := []\<rparr>))"
  using assms
proof (induction cs arbitrary: fs f c)
  case Nil
  then show ?case by simp
next
  case (Cons chunk cs)
  show ?case
  proof (cases "chunk = []")
    case True
    with Cons show ?thesis by (simp add: write_chunk_def fun_upd_def)
  next
    case False
    let ?fs' = "fs(fh_path f \<mapsto> c @ fh_buf f @ chunk)"
    let ?f' = "f\<lparr>fh_buf := []\<rparr>"
    have flush: "write_chunk fs f chunk = (?fs', ?f')"
      using Cons.prems False by (simp add: write_chunk_def fh_flush_def fh_write_def file_content_def)
    have "write_chunks ?fs' ?f' cs =
        (if concat cs = [] then (?fs', ?f')
         else (?fs'(fh_path ?f' \<mapsto> (c @ fh_buf f @ chunk) @ fh_buf ?f' @ concat cs), ?f'\<lparr>fh_buf := []\<rparr>))"
      by (rule Cons.IH) simp
    with False flush show ?thesis by auto
  qed
qed

text \<open>On an open file with nothing buffered, one pass of the loop body appends the chunk.\<close>

lemma write_chunk_flushed:
  assumes "fs (fh_path f) = Some c" and "fh_buf f = []"
  shows "write_chunk fs f chunk = (fs(fh_path f \<mapsto> c @ chunk), f)"
  using assms by (simp add: write_chunk_def fh_flush_def fh_write_def file_content_def fun_upd_idem)

lemma concat_iter_content [simp]: "concat (iter_content bs) = bs"
proof (induction bs rule: iter_content.induct)
  case (1 bs)
  then show ?case by (cases "bs = []") (simp_all add: iter_content_Cons)
qed

lemma stream_to_file_eq:
  "stream_to_file req fs =
     (if resp_broken req then Inl (ChunkedEncodingError ''Connection broken: IncompleteRead'')
      else Inr (), fs(gzip_file_location \<mapsto> resp_body req))"
proof -
  let ?f = "\<lparr>fh_path = gzip_file_location, fh_buf = []\<rparr>"
  have "write_chunks (fs(gzip_file_location \<mapsto> [])) ?f (iter_content (resp_body req)) =
      (if resp_body req = [] then (fs(gzip_file_location \<mapsto> []), ?f)
       else ((fs(gzip_file_location \<mapsto> [])) (gzip_file_location \<mapsto> resp_body req), ?f))"
    using write_chunks_gen [where fs = "fs(gzip_file_location \<mapsto> [])" and f = ?f and c = "[]"
        and cs = "iter_content (resp_body req)", unfolded concat_iter_content]
    by simp
  then show ?thesis
    by (simp add: stream_to_file_def open_wb_def fh_close_def fh_flush_def)
qed

lemma decompress_db_eq:
  "decompress_db gunzip fs =
     (case gunzip (file_content fs gzip_file_location) of
        Inl e \<Rightarrow> (Inl e, fs(DB_FILE_LOCATION \<mapsto> []))
      | Inr data \<Rightarrow> (Inr (), fs(DB_FILE_LOCATION \<mapsto> data)))"
  by (simp add: decompress_db_def open_wb_def fh_close_def fh_flush_def fh_write_def
      split: sum.split)

text \<open>A body of at least a kilobyte has one whole kilobyte more than what follows it.\<close>

lemma kilobytes_div_step: "1024 \<le> (n::nat) \<Longrightarrow> n div 1024 = Suc ((n - 1024) div 1024)"
proof -
  assume "1024 \<le> n"
  then have "n = (n - 1024) + 1024" by simp
  then show ?thesis by (metis div_add_self2 Suc_eq_plus1 zero_neq_numeral)
qed

lemma download_fresh_db_fetched:
  "net DB_FILE_URL = Inr req \<Longrightarrow>
   download_fresh_db net gunzip fs =
     (if resp_broken req
      then (Inl (ChunkedEncodingError ''Connection broken: IncompleteRead''),
            fs(gzip_file_location \<mapsto> resp_body req), [downloading_record])
      else (fst (decompress_db gunzip (fs(gzip_file_location \<mapsto> resp_body req))),
            snd (decompress_db gunzip (fs(gzip_file_location \<mapsto> resp_body req))),
            [downloading_record, decompressing_record]))"
  by (simp add: download_fresh_db_def stream_to_file_eq split_beta)

text \<open>The records of a download: the first always, the second once the stream completed.\<close>

lemma download_fresh_db_log:
  "snd (snd (download_fresh_db net gunzip fs)) =
     downloading_record #
       (if \<exists>req. net DB_FILE_URL = Inr req \<and> \<not> resp_broken req then [decompressing_record] else [])"
proof (cases "net DB_FILE_URL")
  case (Inl e)
  then show ?thesis by (simp add: download_fresh_db_def)
next
  case (Inr req)
  then show ?thesis by (simp add: download_fresh_db_fetched)
qed

lemma download_records_info_or_above:
  "info_or_above (snd (snd (download_fresh_db net gunzip fs)))"
  by (simp add: download_fresh_db_log info_or_above_def downloading_record_def
      decompressing_record_def log_info_def)

text \<open>
  A download that succeeded, run again against the same network and decompressor,
  succeeds again and leaves the same files.
\<close>

lemma download_fresh_db_repeat:
  assumes "fst (download_fresh_db net gunzip fs) = Inr ()"
  shows "download_fresh_db net gunzip (fst (snd (download_fresh_db net gunzip fs))) =
    download_fresh_db net gunzip fs"
proof (cases "net DB_FILE_URL")
  case (Inl e)
  then show ?thesis using assms by (simp add: download_fresh_db_def)
next
  case (Inr req)
  show ?thesis
  proof (cases "resp_broken req")
    case True
    then show ?thesis using assms Inr by (simp add: download_fresh_db_fetched)
  next
    case False
    then show ?thesis using assms Inr
      by (simp add: download_fresh_db_fetched decompress_db_eq fun_upd_twist split: sum.splits)
  qed
qed

section \<open>Properties of the provisioner\<close>

text \<open>
  C10: a download that completes and decompresses leaves exactly two files changed: the
  compressed file holds the bytes received and the database file their decompression;
  it logs the download and the decompression.
\<close>

theorem download_fresh_db_success:
  assumes "net DB_FILE_URL = Inr req" and "\<not> resp_broken req"
    and "gunzip (resp_body req) = Inr data"
  shows "download_fresh_db net gunzip fs =
    (Inr (), fs(gzip_file_location \<mapsto> resp_body req, DB_FILE_LOCATION \<mapsto> data),
     [downloading_record, decompressing_record])"
  using assms by (simp add: download_fresh_db_fetched decompress_db_eq)

text \<open>
  C11: a connection that breaks during the download raises, after every chunk received
  has reached the compressed file; the database file is not touched and the decompression
  is never logged.
\<close>

theorem download_fresh_db_broken:
  assumes "net DB_FILE_URL = Inr req" and "resp_broken req"
  shows "download_fresh_db net gunzip fs =
    (Inl (ChunkedEncodingError ''Connection broken: IncompleteRead''),
     fs(gzip_file_location \<mapsto> resp_body req), [downloading_record])"
  using assms by (simp add: download_fresh_db_fetched)

text \<open>
  C12: when decompressing the download raises (a file that is not gzip, or a truncated
  one), the database file has already been opened for writing: the exception propagates
  unchanged, leaves the database file empty, and the previous database is lost.
\<close>

theorem download_fresh_db_bad_gzip:
  assumes "net DB_FILE_URL = Inr req" and "\<not> resp_broken req"
    and "gunzip (resp_body req) = Inl e"
  shows "download_fresh_db net gunzip fs =
    (Inl e,
     fs(gzip_file_location \<mapsto> resp_body req, DB_FILE_LOCATION \<mapsto> []),
     [downloading_record, decompressing_record])"
  using assms by (simp add: download_fresh_db_fetched decompress_db_eq)

text \<open>
  C13: the provisioner writes no file but the compressed file and the database file,
  whatever the network and the decompressor do.
\<close>

theorem download_fresh_db_frame:
  assumes "p \<noteq> gzip_file_location" and "p \<noteq> DB_FILE_LOCATION"
  shows "fst (snd (download_fresh_db net gunzip fs)) p = fs p"
  using assms
  by (auto simp: download_fresh_db_def stream_to_file_eq decompress_db_eq Let_def
      split: sum.split)

text \<open>
  C14: the HTTP status of the response is never consulted: an error page is handled
  exactly like the database artifact.
\<close>

theorem download_fresh_db_ignores_status:
  "download_fresh_db (\<lambda>u. map_sum id (\<lambda>r. r\<lparr>resp_status := s\<rparr>) (net u)) gunzip fs =
   download_fresh_db net gunzip fs"
  by (cases "net DB_FILE_URL") (simp_all add: download_fresh_db_def stream_to_file_eq)

text \<open>
  C15: the write loop flushes every chunk: started on an open file with nothing
  buffered, it leaves nothing buffered and the file holds its previous content followed
  by the chunks.
\<close>

theorem write_chunks_flushed:
  assumes "fs (fh_path f) = Some c" and "fh_buf f = []"
  shows "write_chunks fs f cs = (fs(fh_path f \<mapsto> c @ concat cs), f)"
proof -
  have "f\<lparr>fh_buf := []\<rparr> = f" using assms(2) by simp
  then show ?thesis
    using write_chunks_gen [where fs = fs and f = f and cs = cs, OF assms(1)] assms
    by (simp add: fun_upd_idem)
qed

end
