(* ===== verification/Cli.thy ===== *)
theory Cli
  imports Logging
begin

text \<open>
  The command line of \<^verbatim>\<open>src/app.py\<close>: \<^verbatim>\<open>parse_arguments\<close> (lines 41--48)
  (\<^verbatim>\<open>setup_logging\<close>, lines 34--39, is in \<open>Logging\<close>). The parser has four \<^verbatim>\<open>store_true\<close>
  flags and argparse's \<^verbatim>\<open>-h/--help\<close>; \<open>parse_argv\<close> reads the argument
  list the way argparse does for such a parser: long options by exact name or by a
  unique prefix, an ambiguous prefix an error at once, clusters of short flags
  (\<^verbatim>\<open>-df\<close>), an explicit value given to a flag an error at once, help an exit
  with status 0 when it is reached, and tokens it does not recognise collected and
  reported at the end (exit status 2). \<^verbatim>\<open>--\<close> makes every later token a
  positional argument, and the parser has none.
\<close>

section \<open>Parsed arguments\<close>

record cli_args =
  debug :: bool
  fresh :: bool
  download :: bool
  verbose :: bool

datatype flag = FHelp | FDebug | FFresh | FDownload | FVerbose

definition no_flags :: cli_args where
  "no_flags = \<lparr>debug = False, fresh = False, download = False, verbose = False\<rparr>"

definition long_options :: "(string \<times> flag) list" where
  "long_options =
     [(''--help'', FHelp), (''--debug'', FDebug), (''--fresh'', FFresh),
      (''--download'', FDownload), (''--verbose'', FVerbose)]"

fun short_flag :: "char \<Rightarrow> flag option" where
  "short_flag c =
     (if c = CHR ''h'' then Some FHelp
      else if c = CHR ''d'' then Some FDebug
      else if c = CHR ''f'' then Some FFresh
      else if c = CHR ''o'' then Some FDownload
      else if c = CHR ''v'' then Some FVerbose
      else None)"

fun set_flag :: "cli_args \<Rightarrow> flag \<Rightarrow> cli_args" where
  "set_flag a FDebug = a\<lparr>debug := True\<rparr>"
| "set_flag a FFresh = a\<lparr>fresh := True\<rparr>"
| "set_flag a FDownload = a\<lparr>download := True\<rparr>"
| "set_flag a FVerbose = a\<lparr>verbose := True\<rparr>"
| "set_flag a FHelp = a"

section \<open>Reading the argument list\<close>

text \<open>The long option a token names: exactly, or as the unique option it is a prefix of.\<close>

datatype long_match = LongFlag flag | LongUnknown | LongAmbiguous

definition match_long :: "string \<Rightarrow> long_match" where
  "match_long name =
     (case map_of long_options name of
        Some fl \<Rightarrow> LongFlag fl
      | None \<Rightarrow>
          (case filter (\<lambda>(n, _). take (length name) n = name) long_options of
             [] \<Rightarrow> LongUnknown
           | [(n, fl)] \<Rightarrow> LongFlag fl
           | _ \<Rightarrow> LongAmbiguous))"

text \<open>
  One step of the loop for a flag that was recognised: help exits at once, any other
  flag is stored.
\<close>

definition take_flag :: "flag \<Rightarrow> cli_args \<Rightarrow> cli_args py" where
  "take_flag fl a = (if fl = FHelp then Inl (SystemExit 0) else Inr (set_flag a fl))"

text \<open>
  A cluster of short flags (\<^verbatim>\<open>-dfv\<close>): argparse resolves every letter first, an
  unknown one an error at once, and only then takes the flags in order.
\<close>

fun cluster_flags :: "string \<Rightarrow> flag list option" where
  "cluster_flags [] = Some []"
| "cluster_flags (c # cs) =
     (case short_flag c of
        None \<Rightarrow> None
      | Some fl \<Rightarrow> map_option (Cons fl) (cluster_flags cs))"

fun take_flags :: "flag list \<Rightarrow> cli_args \<Rightarrow> cli_args py" where
  "take_flags [] a = Inr a"
| "take_flags (fl # fls) a = py_bind (take_flag fl a) (take_flags fls)"

fun parse_argv :: "string list \<Rightarrow> cli_args \<Rightarrow> bool \<Rightarrow> cli_args py" where
  "parse_argv [] a extras = (if extras then Inl (SystemExit 2) else Inr a)"
| "parse_argv (tok # toks) a extras =
     (if tok = ''--'' then parse_argv [] a (extras \<or> toks \<noteq> [])
      else if take 2 tok = ''--'' then
        (let name = takeWhile (\<lambda>c. c \<noteq> CHR ''='') tok;
             explicit = (name \<noteq> tok)
         in case match_long name of
              LongAmbiguous \<Rightarrow> Inl (SystemExit 2)
            | LongUnknown \<Rightarrow> parse_argv toks a True
            | LongFlag fl \<Rightarrow>
                if explicit then Inl (SystemExit 2)
                else py_bind (take_flag fl a) (\<lambda>a'. parse_argv toks a' extras))
      else if 2 \<le> length tok \<and> hd tok = CHR ''-'' then
        (case short_flag (tok ! 1) of
           None \<Rightarrow> parse_argv toks a True
         | Some fl \<Rightarrow>
             (case cluster_flags (drop 2 tok) of
                None \<Rightarrow> Inl (SystemExit 2)
              | Some fls \<Rightarrow> py_bind (take_flags (fl # fls) a) (\<lambda>a'. parse_argv toks a' extras)))
      else parse_argv toks a True)"

definition parse_arguments :: "string list \<Rightarrow> cli_args py" where
  "parse_arguments argv = parse_argv argv no_flags False"

text \<open>The tokens that name the four flags exactly.\<close>

definition flag_tokens :: "string list" where
  "flag_tokens = [''-d'', ''--debug'', ''-f'', ''--fresh'', ''-o'', ''--download'', ''-v'', ''--verbose'']"

section \<open>Lemmas\<close>

text \<open>Each of the eight flag tokens stores its flag and goes on with the next token.\<close>

lemma parse_argv_flag_token_simps:
  "parse_argv (''-d'' # toks) a e = parse_argv toks (a\<lparr>debug := True\<rparr>) e"
  "parse_argv (''--debug'' # toks) a e = parse_argv toks (a\<lparr>debug := True\<rparr>) e"
  "parse_argv (''-f'' # toks) a e = parse_argv toks (a\<lparr>fresh := True\<rparr>) e"
  "parse_argv (''--fresh'' # toks) a e = parse_argv toks (a\<lparr>fresh := True\<rparr>) e"
  "parse_argv (''-o'' # toks) a e = parse_argv toks (a\<lparr>download := True\<rparr>) e"
  "parse_argv (''--download'' # toks) a e = parse_argv toks (a\<lparr>download := True\<rparr>) e"
  "parse_argv (''-v'' # toks) a e = parse_argv toks (a\<lparr>verbose := True\<rparr>) e"
  "parse_argv (''--verbose'' # toks) a e = parse_argv toks (a\<lparr>verbose := True\<rparr>) e"
  by (simp_all add: take_flag_def match_long_def long_options_def)

lemma flag_tokens_cases:
  assumes "t \<in> set flag_tokens"
  obtains "t = ''-d''" | "t = ''--debug''" | "t = ''-f''" | "t = ''--fresh''"
    | "t = ''-o''" | "t = ''--download''" | "t = ''-v''" | "t = ''--verbose''"
proof -
  from assms have "t = ''-d'' \<or> t = ''--debug'' \<or> t = ''-f'' \<or> t = ''--fresh'' \<or>
      t = ''-o'' \<or> t = ''--download'' \<or> t = ''-v'' \<or> t = ''--verbose''"
    by (simp add: flag_tokens_def)
  then show ?thesis using that by metis
qed

lemma parse_argv_flag_tokens:
  assumes "list_all (\<lambda>t. t \<in> set flag_tokens) toks"
  shows "parse_argv toks a extras =
    (if extras then Inl (SystemExit 2)
     else Inr \<lparr>debug = (debug a \<or> ''-d'' \<in> set toks \<or> ''--debug'' \<in> set toks),
               fresh = (fresh a \<or> ''-f'' \<in> set toks \<or> ''--fresh'' \<in> set toks),
               download = (download a \<or> ''-o'' \<in> set toks \<or> ''--download'' \<in> set toks),
               verbose = (verbose a \<or> ''-v'' \<in> set toks \<or> ''--verbose'' \<in> set toks)\<rparr>)"
  using assms
proof (induction toks arbitrary: a extras)
  case Nil
  then show ?case by (cases a) simp
next
  case (Cons t toks)
  then have t: "t \<in> set flag_tokens" and rest: "list_all (\<lambda>t. t \<in> set flag_tokens) toks"
    by simp_all
  from t show ?case
    by (cases rule: flag_tokens_cases)
      (simp_all add: Cons.IH [OF rest] parse_argv_flag_token_simps del: parse_argv.simps)
qed

text \<open>One flag token is consumed without ending the parse.\<close>

lemma parse_argv_flag_step:
  assumes "t \<in> set flag_tokens"
  shows "\<exists>a'. parse_argv (t # toks) a e = parse_argv toks a' e"
  using assms by (cases rule: flag_tokens_cases) (simp_all only: parse_argv_flag_token_simps, blast+)

end
