(* ===== verification/Service.thy ===== *)
theory Service
  imports Routing Provisioner Cli
begin

text \<open>
  The process of \<^verbatim>\<open>src/app.py\<close> as a whole. \<open>run_main\<close> is the
  \<^verbatim>\<open>__main__\<close> block (lines 96--104): parse the command line, set the logging
  level, download the database when \<^verbatim>\<open>--fresh\<close> or \<^verbatim>\<open>--download\<close>
  is given, and start the server unless \<^verbatim>\<open>--download\<close> is given; an exception
  anywhere ends the script. \<open>proc_state\<close> records what the script leaves: the
  filesystem, the logging level, whether and how the server was started, the exception
  it ended with, and the records it logged.

  \<^verbatim>\<open>app.run(debug=True)\<close> turns on werkzeug's reloader (Flask's
  \<^verbatim>\<open>use_reloader\<close> defaults to the debug flag): the process does not serve but
  starts a child process that runs the script again from the top, with the same command
  line, and the child serves. So under \<^verbatim>\<open>--debug\<close> lines 97--101 run twice, the
  second time on the filesystem the first left; the network and the decompressor answer
  the second run as they answered the first. The reloader's restarts on a change of the
  source files are not modelled.
\<close>

section \<open>The script\<close>

record proc_state =
  ps_fs :: filesystem
  ps_level :: "log_level option"
  ps_server :: "bool option"
  ps_exit :: "py_exc option"
  ps_log :: "log_record list"

text \<open>Lines 100--101: the download, when the flags ask for it.\<close>

definition provision ::
  "cli_args \<Rightarrow> network \<Rightarrow> gunzip \<Rightarrow> filesystem \<Rightarrow> unit py \<times> filesystem \<times> log_record list" where
  "provision args net gunzip fs =
     (if fresh args \<or> download args then download_fresh_db net gunzip fs else (Inr (), fs, []))"

text \<open>
  Lines 103--104 after a script run that left \<open>fs\<close> and the records \<open>recs\<close>:
  without \<^verbatim>\<open>--debug\<close> the process serves; with it the reloader's child runs
  lines 97--101 again and serves, or ends with the exception of its own run.
\<close>

definition app_run ::
  "cli_args \<Rightarrow> network \<Rightarrow> gunzip \<Rightarrow> log_level \<Rightarrow> filesystem \<Rightarrow> log_record list \<Rightarrow> proc_state" where
  "app_run args net gunzip level fs recs =
     (if \<not> debug args
      then \<lparr>ps_fs = fs, ps_level = Some level, ps_server = Some False, ps_exit = None, ps_log = recs\<rparr>
      else
        (let (r, fs', recs') = provision args net gunzip fs
         in (case r of
               Inl e \<Rightarrow>
                 \<lparr>ps_fs = fs', ps_level = Some level, ps_server = None, ps_exit = Some e,
                  ps_log = recs @ recs'\<rparr>
             | Inr _ \<Rightarrow>
                 \<lparr>ps_fs = fs', ps_level = Some level, ps_server = Some True, ps_exit = None,
                  ps_log = recs @ recs'\<rparr>)))"

definition run_main :: "string list \<Rightarrow> network \<Rightarrow> gunzip \<Rightarrow> filesystem \<Rightarrow> proc_state" where
  "run_main argv net gunzip fs =
     (case parse_arguments argv of
        Inl e \<Rightarrow> \<lparr>ps_fs = fs, ps_level = None, ps_server = None, ps_exit = Some e, ps_log = []\<rparr>
      | Inr args \<Rightarrow>
          (let level = setup_logging (verbose args);
               (r, fs', recs) = provision args net gunzip fs
           in (case r of
                 Inl e \<Rightarrow>
                   \<lparr>ps_fs = fs', ps_level = Some level, ps_server = None, ps_exit = Some e,
                    ps_log = recs\<rparr>
               | Inr _ \<Rightarrow>
                   (if \<not> download args then app_run args net gunzip level fs' recs
                    else \<lparr>ps_fs = fs', ps_level = Some level, ps_server = None, ps_exit = None,
                          ps_log = recs\<rparr>))))"

section \<open>Serving\<close>

text \<open>
  The server the script starts: the filesystem it serves from, and the state of the
  application (an empty request context, no reader opened yet, the script's log). Each
  request is then served by \<open>serve_request\<close> in a fresh application context.
\<close>

record server =
  srv_fs :: filesystem
  srv_st :: lookup_state

definition start_server :: "proc_state \<Rightarrow> server option" where
  "start_server ps =
     (case ps_server ps of
        None \<Rightarrow> None
      | Some _ \<Rightarrow>
          Some \<lparr>srv_fs = ps_fs ps,
                srv_st = \<lparr>req_g = \<lparr>g_db_reader = None\<rparr>, open_attempts = 0, app_log = ps_log ps\<rparr>\<rparr>)"

section \<open>Lemmas\<close>

text \<open>
  The script on a command line that parses: the server starts after a successful
  provisioning unless \<^verbatim>\<open>--download\<close>, and the second run of the reloader repeats
  a successful download exactly.
\<close>

lemma provision_repeat:
  "fst (provision args net gunzip fs) = Inr () \<Longrightarrow>
   provision args net gunzip (fst (snd (provision args net gunzip fs))) = provision args net gunzip fs"
  by (cases "fresh args \<or> download args") (simp_all add: provision_def download_fresh_db_repeat)

lemma run_main_parsed:
  assumes "parse_arguments argv = Inr args"
  shows "run_main argv net gunzip fs =
     (let (r, fs', recs) = provision args net gunzip fs
      in \<lparr>ps_fs = fs', ps_level = Some (setup_logging (verbose args)),
          ps_server = (if r = Inr () \<and> \<not> download args then Some (debug args) else None),
          ps_exit = (case r of Inl e \<Rightarrow> Some e | Inr _ \<Rightarrow> None),
          ps_log = (if r = Inr () \<and> \<not> download args \<and> debug args then recs @ recs else recs)\<rparr>)"
proof (cases "fst (provision args net gunzip fs)")
  case (Inl e)
  then show ?thesis using assms by (simp add: run_main_def split_beta)
next
  case (Inr u)
  then have "fst (provision args net gunzip fs) = Inr ()" by simp
  note rep = provision_repeat [OF this]
  show ?thesis using assms Inr rep
    by (simp add: run_main_def app_run_def split_beta split: sum.split)
qed

lemma parse_argv_extras:
  "list_all (\<lambda>t. t \<in> set flag_tokens) toks \<Longrightarrow> parse_argv toks a True = Inl (SystemExit 2)"
  by (simp add: parse_argv_flag_tokens)

section \<open>Properties of the process\<close>

text \<open>
  C28: the script's log: with \<^verbatim>\<open>--fresh\<close> or \<^verbatim>\<open>--download\<close> it logs
  the download (line 51), and the decompression (line 61) exactly when the response was
  received whole; otherwise nothing. Under \<^verbatim>\<open>--debug\<close>, when the script goes on
  to serve, the reloader's child runs the download again and logs it a second time. The
  level \<^verbatim>\<open>setup_logging\<close> chose hides none of these records.
\<close>

theorem main_log:
  assumes "parse_arguments argv = Inr args"
  shows "ps_log (run_main argv net gunzip fs) =
      (let once =
         (if fresh args \<or> download args
          then downloading_record #
                 (if \<exists>req. net DB_FILE_URL = Inr req \<and> \<not> resp_broken req then [decompressing_record] else [])
          else [])
       in if debug args \<and> \<not> download args \<and> fst (download_fresh_db net gunzip fs) = Inr ()
          then once @ once else once) \<and>
    emitted (setup_logging (verbose args)) (ps_log (run_main argv net gunzip fs)) =
      ps_log (run_main argv net gunzip fs)"
proof -
  have "ps_log (run_main argv net gunzip fs) =
      (let once = (if fresh args \<or> download args then snd (snd (download_fresh_db net gunzip fs)) else [])
       in if debug args \<and> \<not> download args \<and> fst (download_fresh_db net gunzip fs) = Inr ()
          then once @ once else once)"
    using assms by (auto simp: run_main_parsed provision_def split_beta Let_def)
  moreover have "info_or_above (ps_log (run_main argv net gunzip fs))"
    using calculation download_records_info_or_above by (simp add: info_or_above_def Let_def)
  ultimately show ?thesis by (simp add: download_fresh_db_log emitted_info_or_above)
qed

text \<open>
  C18: with \<^verbatim>\<open>--download\<close> the script only provisions: it never starts the
  server, and it leaves the filesystem the download left.
\<close>

theorem main_download_only:
  assumes "parse_arguments argv = Inr args" and "download args"
  shows "ps_server (run_main argv net gunzip fs) = None \<and>
    ps_fs (run_main argv net gunzip fs) = fst (snd (download_fresh_db net gunzip fs))"
  using assms by (simp add: run_main_parsed provision_def split_beta)

text \<open>
  C19: without \<^verbatim>\<open>--download\<close> the server starts, in debug mode exactly when
  \<^verbatim>\<open>--debug\<close> is given, and with the logging level of \<^verbatim>\<open>--verbose\<close>; with
  \<^verbatim>\<open>--fresh\<close> it starts only after the download succeeded, on the filesystem it
  left (under \<^verbatim>\<open>--debug\<close> the reloader's second download leaves the same files),
  and a failed download ends the script without serving.
\<close>

theorem main_serves:
  assumes "parse_arguments argv = Inr args" and "\<not> download args"
  shows "ps_level (run_main argv net gunzip fs) = Some (setup_logging (verbose args)) \<and>
    (if fresh args
     then ps_fs (run_main argv net gunzip fs) = fst (snd (download_fresh_db net gunzip fs)) \<and>
          ps_server (run_main argv net gunzip fs) =
            (if fst (download_fresh_db net gunzip fs) = Inr () then Some (debug args) else None)
     else ps_fs (run_main argv net gunzip fs) = fs \<and>
          ps_server (run_main argv net gunzip fs) = Some (debug args))"
  using assms by (simp add: run_main_parsed provision_def split_beta)

text \<open>
  C20: a command line made of the four flags, in any order and repetition, parses to
  the flags it names.
\<close>

theorem parse_arguments_flags:
  assumes "list_all (\<lambda>t. t \<in> set flag_tokens) argv"
  shows "parse_arguments argv =
    Inr \<lparr>debug = (''-d'' \<in> set argv \<or> ''--debug'' \<in> set argv),
         fresh = (''-f'' \<in> set argv \<or> ''--fresh'' \<in> set argv),
         download = (''-o'' \<in> set argv \<or> ''--download'' \<in> set argv),
         verbose = (''-v'' \<in> set argv \<or> ''--verbose'' \<in> set argv)\<rparr>"
  using assms by (simp add: parse_arguments_def parse_argv_flag_tokens no_flags_def)

text \<open>
  C21: an argument that is not an option makes the script exit with status 2, whatever
  flags surround it, and an option prefix that names two options (\<^verbatim>\<open>--d\<close>) is an
  error while a unique prefix (\<^verbatim>\<open>--fr\<close>) names its option.
\<close>

theorem parse_arguments_rejects:
  assumes "list_all (\<lambda>t. t \<in> set flag_tokens) xs" and "list_all (\<lambda>t. t \<in> set flag_tokens) ys"
    and "tok \<noteq> []" and "hd tok \<noteq> CHR ''-''"
  shows "parse_arguments (xs @ tok # ys) = Inl (SystemExit 2) \<and>
    parse_arguments [''--d''] = Inl (SystemExit 2) \<and>
    parse_arguments [''--fr''] = Inr (no_flags\<lparr>fresh := True\<rparr>)"
proof -
  obtain c cs where tok: "tok = c # cs" and c: "c \<noteq> CHR ''-''"
    using assms(3,4) by (cases tok) auto
  have step: "parse_argv (tok # ys) a e = parse_argv ys a True" for a e
    using tok c by (cases cs) simp_all
  have "parse_argv (xs @ tok # ys) a False = Inl (SystemExit 2)" for a
    using assms(1)
  proof (induction xs arbitrary: a)
    case Nil
    then show ?case using step parse_argv_extras [OF assms(2)] by simp
  next
    case (Cons x xs)
    then have "x \<in> set flag_tokens" and "list_all (\<lambda>t. t \<in> set flag_tokens) xs" by simp_all
    then obtain a' where "parse_argv (x # xs @ tok # ys) a False = parse_argv (xs @ tok # ys) a' False"
      using parse_argv_flag_step by blast
    with Cons show ?case by simp
  qed
  then show ?thesis
    by (simp add: parse_arguments_def match_long_def long_options_def no_flags_def take_flag_def
        Let_def)
qed

end
