(* ===== verification/Samples.thy ===== *)
theory Samples
  imports Service
begin

text \<open>
  Concrete data on which the witnesses evaluate the model: the example of section 8 of
  the specification (an address that maps to Springfield, US, with no postal and no
  subdivision data), a database file and a decoder for it that plays the query engine,
  a filesystem holding that file, a request context with an empty cache slot, a network
  that serves a compressed copy of the file, and a decompressor for it.
\<close>

definition springfield_record :: pyobj where
  "springfield_record =
     PyObj [(''city'', PyObj [(''name'', PyStr ''Springfield'')]),
            (''country'', PyObj [(''iso_code'', PyStr ''US''), (''name'', PyStr ''United States'')]),
            (''location'', PyObj [(''latitude'', PyFloat 39.8), (''longitude'', PyFloat (-89.64)),
                                  (''time_zone'', PyStr ''America/Chicago'')])]"

definition sample_db_bytes :: bytes where
  "sample_db_bytes = [0xAB, 0xCD, 0xEF]"

definition sample_query :: "string \<Rightarrow> query_outcome" where
  "sample_query ip =
     (if ip = ''1.2.3.4'' then Found springfield_record
      else if ip = ''not-an-ip'' then InvalidAddress
      else NotInDatabase)"

definition sample_decoder :: mmdb_decoder where
  "sample_decoder content = (if content = sample_db_bytes then Some sample_query else None)"

definition sample_fs :: filesystem where
  "sample_fs = Map.empty(DB_FILE_LOCATION \<mapsto> sample_db_bytes)"

definition fresh_state :: lookup_state where
  "fresh_state = \<lparr>req_g = \<lparr>g_db_reader = None\<rparr>, open_attempts = 0, app_log = []\<rparr>"

definition sample_gz_bytes :: bytes where
  "sample_gz_bytes = [0x1F, 0x8B, 0x08, 0x00]"

definition sample_response :: http_response where
  "sample_response = \<lparr>resp_status = 200, resp_body = sample_gz_bytes, resp_broken = False\<rparr>"

definition sample_net :: network where
  "sample_net url =
     (if url = DB_FILE_URL then Inr sample_response
      else Inl (ConnectionError ''Name or service not known''))"

definition sample_gunzip :: gunzip where
  "sample_gunzip bs =
     (if bs = sample_gz_bytes then Inr sample_db_bytes else Inl (BadGzipFile ''Not a gzipped file''))"

text \<open>A record whose \<^verbatim>\<open>city.name\<close> is an object rather than a string.\<close>

definition object_city_record :: pyobj where
  "object_city_record = PyObj [(''city'', PyObj [(''name'', PyObj [])])]"

lemma sample_facts:
  "g_db_reader (req_g fresh_state) = None"
  "sample_fs DB_FILE_LOCATION = Some sample_db_bytes"
  "sample_decoder sample_db_bytes = Some sample_query"
  by (simp_all add: fresh_state_def sample_fs_def sample_decoder_def)

lemma sample_net_facts:
  "sample_net DB_FILE_URL = Inr sample_response"
  "\<not> resp_broken sample_response"
  "sample_gunzip (resp_body sample_response) = Inr sample_db_bytes"
  by (simp_all add: sample_net_def sample_response_def sample_gunzip_def)

lemma sample_argv:
  "parse_arguments [''-o''] = Inr (no_flags\<lparr>download := True\<rparr>)"
  "parse_arguments [''-d''] = Inr (no_flags\<lparr>debug := True\<rparr>)"
  "parse_arguments [''--fresh''] = Inr (no_flags\<lparr>fresh := True\<rparr>)"
  "parse_arguments [''-f'', ''-d''] = Inr (no_flags\<lparr>fresh := True, debug := True\<rparr>)"
  by (simp_all add: parse_arguments_def take_flag_def match_long_def long_options_def no_flags_def)

end
