(* ===== verification/Stream.thy ===== *)
theory Stream
  imports Provisioner
begin

text \<open>
  The download of \<^verbatim>\<open>download_fresh_db\<close> (lines 52--59) as the loop it runs over
  the connection: \<^verbatim>\<open>req.iter_content(chunk_size=1024)\<close> pulls a read of 1024
  bytes from the connection (\<^verbatim>\<open>requests\<close> over \<^verbatim>\<open>urllib3\<close>: each read blocks
  until it has 1024 bytes or the stream ends, and a connection that breaks during a read
  raises \<^verbatim>\<open>ChunkedEncodingError\<close>, losing the bytes of that read), and the body of
  the loop writes and flushes it before the next read. The peer is what arrives at each
  position of the body: a byte, the end of the stream, or a reset.

  \<open>iter_step\<close> is one pass of the loop, \<open>stream_loop\<close> the loop, a
  \<^theory_text>\<open>partial_function (option)\<close> because it may not end (\<open>None\<close> is "never
  returns"), and \<open>loop_run\<close> the state after a given number of passes, so that what
  the loop does before it returns, or while it never does, can be stated. The lemmas show
  that on a finite body the loop returns with what it received on disk, and that on a
  peer that keeps sending it never returns while the file on disk grows by a kilobyte a
  pass.
\<close>

section \<open>The connection\<close>

datatype peer_event = PByte byte | PEof | PReset

type_synonym peer = "nat \<Rightarrow> peer_event"

fun read_upto :: "peer \<Rightarrow> nat \<Rightarrow> nat \<Rightarrow> bytes py" where
  "read_upto peer pos 0 = Inr []"
| "read_upto peer pos (Suc k) =
     (case peer pos of
        PEof \<Rightarrow> Inr []
      | PReset \<Rightarrow> Inl (ChunkedEncodingError ''Connection broken: IncompleteRead'')
      | PByte b \<Rightarrow> py_bind (read_upto peer (Suc pos) k) (\<lambda>bs. Inr (b # bs)))"

text \<open>The connection of a body that is sent whole, then closed or reset.\<close>

definition body_peer :: "bytes \<Rightarrow> bool \<Rightarrow> peer" where
  "body_peer bs broken n =
     (if n < length bs then PByte (bs ! n) else if broken then PReset else PEof)"

type_synonym live_network = "string \<Rightarrow> (nat \<times> peer) py"

section \<open>The loop of lines 56--59\<close>

datatype loop_result =
    Next nat filesystem fhandle
  | Exit "unit py" filesystem fhandle

definition iter_step :: "peer \<Rightarrow> nat \<Rightarrow> filesystem \<Rightarrow> fhandle \<Rightarrow> loop_result" where
  "iter_step peer pos fs f =
     (case peer pos of
        PEof \<Rightarrow> Exit (Inr ()) fs f
      | PReset \<Rightarrow> Exit (Inl (ChunkedEncodingError ''Connection broken: IncompleteRead'')) fs f
      | PByte _ \<Rightarrow>
          (case read_upto peer pos 1024 of
             Inl e \<Rightarrow> Exit (Inl e) fs f
           | Inr chunk \<Rightarrow> (let (fs', f') = write_chunk fs f chunk in Next (pos + length chunk) fs' f')))"

partial_function (option) stream_loop ::
  "peer \<Rightarrow> nat \<Rightarrow> filesystem \<Rightarrow> fhandle \<Rightarrow> (unit py \<times> filesystem \<times> fhandle) option" where
  "stream_loop peer pos fs f =
     (case iter_step peer pos fs f of
        Exit r fs' f' \<Rightarrow> Some (r, fs', f')
      | Next pos' fs' f' \<Rightarrow> stream_loop peer pos' fs' f')"

fun loop_run :: "peer \<Rightarrow> nat \<Rightarrow> nat \<Rightarrow> filesystem \<Rightarrow> fhandle \<Rightarrow> loop_result" where
  "loop_run peer 0 pos fs f = Next pos fs f"
| "loop_run peer (Suc k) pos fs f =
     (case iter_step peer pos fs f of
        Exit r fs' f' \<Rightarrow> Exit r fs' f'
      | Next pos' fs' f' \<Rightarrow> loop_run peer k pos' fs' f')"

section \<open>The download over the connection\<close>

text \<open>
  The first \<^verbatim>\<open>with\<close> block over the connection, and \<^verbatim>\<open>download_fresh_db\<close>
  with it: \<open>None\<close> when the loop never ends.
\<close>

definition stream_to_file_live :: "peer \<Rightarrow> filesystem \<Rightarrow> (unit py \<times> filesystem) option" where
  "stream_to_file_live peer fs =
     (let (fs1, f) = open_wb gzip_file_location fs
      in Option.bind (stream_loop peer 0 fs1 f) (\<lambda>(r, fs2, f2). Some (r, fh_close fs2 f2)))"

definition download_live ::
  "live_network \<Rightarrow> gunzip \<Rightarrow> filesystem \<Rightarrow> (unit py \<times> filesystem \<times> log_record list) option" where
  "download_live net gunzip fs =
     (let log1 = [downloading_record]
      in case net DB_FILE_URL of
           Inl e \<Rightarrow> Some (Inl e, fs, log1)
         | Inr (status, peer) \<Rightarrow>
             Option.bind (stream_to_file_live peer fs)
               (\<lambda>(r, fs'). case r of
                   Inl e \<Rightarrow> Some (Inl e, fs', log1)
                 | Inr _ \<Rightarrow>
                     (let log2 = log1 @ [decompressing_record];
                          (r', fs'') = decompress_db gunzip fs'
                      in Some (r', fs'', log2))))"

section \<open>Lemmas\<close>

lemma read_upto_body:
  "read_upto (body_peer bs br) pos k =
     (if k = 0 \<or> pos + k \<le> length bs then Inr (take k (drop pos bs))
      else if br then Inl (ChunkedEncodingError ''Connection broken: IncompleteRead'')
      else Inr (drop pos bs))"
proof (induction k arbitrary: pos)
  case 0
  then show ?case by simp
next
  case (Suc k)
  show ?case
  proof (cases "pos < length bs")
    case True
    then have "drop pos bs = bs ! pos # drop (Suc pos) bs" by (rule Cons_nth_drop_Suc [symmetric])
    with True Suc.IH [of "Suc pos"] show ?thesis by (simp add: body_peer_def)
  next
    case False
    then show ?thesis by (simp add: body_peer_def)
  qed
qed

text \<open>A peer that keeps sending fills every read.\<close>

lemma read_upto_endless: "read_upto (\<lambda>n. PByte (s n)) pos k = Inr (map s [pos..<pos + k])"
proof (induction k arbitrary: pos)
  case 0
  then show ?case by simp
next
  case (Suc k)
  have "[pos..<pos + Suc k] = pos # [Suc pos..<Suc pos + k]" by (simp add: upt_rec)
  with Suc.IH [of "Suc pos"] show ?case by simp
qed

text \<open>One pass on an open file with nothing buffered: the chunk read is appended on disk.\<close>

lemma iter_step_read:
  assumes "peer pos = PByte b" and "read_upto peer pos 1024 = Inr chunk"
    and "fs (fh_path f) = Some c" and "fh_buf f = []"
  shows "iter_step peer pos fs f = Next (pos + length chunk) (fs(fh_path f \<mapsto> c @ chunk)) f"
  using assms by (simp add: iter_step_def write_chunk_flushed)

lemma loop_run_Next:
  "iter_step peer pos fs f = Next pos' fs' f' \<Longrightarrow>
   loop_run peer (Suc k) pos fs f = loop_run peer k pos' fs' f'"
  by simp

lemma stream_loop_Exit:
  "iter_step peer pos fs f = Exit r fs' f' \<Longrightarrow> stream_loop peer pos fs f = Some (r, fs', f')"
  by (simp add: stream_loop.simps)

lemma stream_loop_Next:
  "iter_step peer pos fs f = Next pos' fs' f' \<Longrightarrow> stream_loop peer pos fs f = stream_loop peer pos' fs' f'"
  by (subst stream_loop.simps) simp

lemma read_upto_all_bytes:
  assumes "\<forall>n. \<exists>b. peer n = PByte b"
  shows "\<exists>c. read_upto peer pos k = Inr c \<and> length c = k"
  using assms
proof (induction k arbitrary: pos)
  case 0
  then show ?case by simp
next
  case (Suc k)
  then obtain b where "peer pos = PByte b" by blast
  moreover obtain c where "read_upto peer (Suc pos) k = Inr c \<and> length c = k"
    using Suc by blast
  ultimately show ?case by simp
qed

text \<open>On a peer that never stops sending, every pass of the loop goes on to the next.\<close>

lemma iter_step_all_bytes:
  assumes "\<forall>n. \<exists>b. peer n = PByte b"
  shows "\<exists>pos' fs' f'. iter_step peer pos fs f = Next pos' fs' f'"
proof -
  obtain b where b: "peer pos = PByte b" using assms by blast
  obtain c where "read_upto peer pos 1024 = Inr c" using read_upto_all_bytes [OF assms] by blast
  with b show ?thesis by (simp add: iter_step_def split_beta)
qed

text \<open>The loop returns only on a peer that at some point stops sending bytes.\<close>

lemma stream_loop_returns_closed:
  assumes "stream_loop peer pos fs f = Some r"
  shows "\<not> (\<forall>n. \<exists>b. peer n = PByte b)"
proof (rule stream_loop.raw_induct
    [where P = "\<lambda>peer pos fs f r. \<not> (\<forall>n. \<exists>b. peer n = PByte b)", OF _ assms])
  fix F peer pos fs f r
  assume IH: "\<And>peer pos fs f r. F peer pos fs f = Some r \<Longrightarrow> \<not> (\<forall>n. \<exists>b. peer n = PByte b)"
    and eq: "(case iter_step peer pos fs f of
        Exit r fs' f' \<Rightarrow> Some (r, fs', f')
      | Next pos' fs' f' \<Rightarrow> F peer pos' fs' f') = Some r"
  show "\<not> (\<forall>n. \<exists>b. peer n = PByte b)"
  proof
    assume all: "\<forall>n. \<exists>b. peer n = PByte b"
    then obtain pos' fs' f' where "iter_step peer pos fs f = Next pos' fs' f'"
      using iter_step_all_bytes by blast
    with eq have "F peer pos' fs' f' = Some r" by simp
    then show False using IH all by blast
  qed
qed

text \<open>
  The loop over a body sent whole: it returns, having appended to the file what it
  received, the whole rest of the body when the connection is closed, and its whole
  kilobytes when the connection is reset.
\<close>

lemma stream_loop_body_gen:
  assumes "fs (fh_path f) = Some c" and "fh_buf f = []"
  shows "stream_loop (body_peer bs br) pos fs f =
    Some (if br then Inl (ChunkedEncodingError ''Connection broken: IncompleteRead'') else Inr (),
          fs(fh_path f \<mapsto> c @ (if br then take (1024 * ((length bs - pos) div 1024)) (drop pos bs)
                                 else drop pos bs)), f)"
  using assms
proof (induction "length bs - pos" arbitrary: pos fs c rule: less_induct)
  case less
  let ?peer = "body_peer bs br"
  show ?case
  proof (cases "pos < length bs")
    case False
    then have "iter_step ?peer pos fs f =
        Exit (if br then Inl (ChunkedEncodingError ''Connection broken: IncompleteRead'') else Inr ()) fs f"
      by (simp add: iter_step_def body_peer_def)
    with False less.prems show ?thesis by (simp add: stream_loop_Exit fun_upd_idem)
  next
    case True
    then have pb: "?peer pos = PByte (bs ! pos)" by (simp add: body_peer_def)
    show ?thesis
    proof (cases "pos + 1024 \<le> length bs")
      case full: True
      let ?chunk = "take 1024 (drop pos bs)"
      have "iter_step ?peer pos fs f = Next (pos + 1024) (fs(fh_path f \<mapsto> c @ ?chunk)) f"
        using iter_step_read [where peer = ?peer and pos = pos and fs = fs and f = f and c = c, OF pb _ less.prems] full
        by (simp add: read_upto_body)
      then have "stream_loop ?peer pos fs f = stream_loop ?peer (pos + 1024) (fs(fh_path f \<mapsto> c @ ?chunk)) f"
        by (rule stream_loop_Next)
      moreover have "stream_loop ?peer (pos + 1024) (fs(fh_path f \<mapsto> c @ ?chunk)) f =
          Some (if br then Inl (ChunkedEncodingError ''Connection broken: IncompleteRead'') else Inr (),
            fs(fh_path f \<mapsto> (c @ ?chunk) @ (if br then take (1024 * ((length bs - (pos + 1024)) div 1024))
                                                       (drop (pos + 1024) bs)
                                             else drop (pos + 1024) bs)), f)"
        using less.hyps [where pos = "pos + 1024" and fs = "fs(fh_path f \<mapsto> c @ ?chunk)"
            and c = "c @ ?chunk"] True less.prems(2) by simp
      moreover have "?chunk @ drop (pos + 1024) bs = drop pos bs"
        by (metis append_take_drop_id drop_drop add.commute)
      moreover have "(length bs - pos) div 1024 = Suc ((length bs - (pos + 1024)) div 1024)"
        using full kilobytes_div_step [of "length bs - pos"] by simp
      then have "take (1024 * ((length bs - pos) div 1024)) (drop pos bs) =
          ?chunk @ take (1024 * ((length bs - (pos + 1024)) div 1024)) (drop (pos + 1024) bs)"
        by (simp add: take_add add.commute [of pos 1024])
      ultimately show ?thesis by simp
    next
      case part: False
      show ?thesis
      proof (cases br)
        case True
        have "iter_step ?peer pos fs f = Exit (Inl (ChunkedEncodingError ''Connection broken: IncompleteRead'')) fs f"
          using pb part True by (simp add: iter_step_def read_upto_body)
        moreover have "(length bs - pos) div 1024 = 0" using part by simp
        ultimately show ?thesis using True less.prems by (simp add: stream_loop_Exit fun_upd_idem)
      next
        case False
        have "iter_step ?peer pos fs f = Next (length bs) (fs(fh_path f \<mapsto> c @ drop pos bs)) f"
          using iter_step_read [where peer = ?peer and pos = pos and fs = fs and f = f and c = c, OF pb _ less.prems] part False True
          by (simp add: read_upto_body)
        moreover have "iter_step ?peer (length bs) (fs(fh_path f \<mapsto> c @ drop pos bs)) f =
            Exit (Inr ()) (fs(fh_path f \<mapsto> c @ drop pos bs)) f"
          using False by (simp add: iter_step_def body_peer_def)
        ultimately show ?thesis using False by (simp add: stream_loop_Next stream_loop_Exit)
      qed
    qed
  qed
qed

lemma loop_run_endless_gen:
  assumes "fs (fh_path f) = Some c" and "fh_buf f = []"
  shows "loop_run (\<lambda>n. PByte (s n)) k pos fs f =
    Next (pos + 1024 * k) (fs(fh_path f \<mapsto> c @ map s [pos..<pos + 1024 * k])) f"
  using assms
proof (induction k arbitrary: pos fs c)
  case 0
  then show ?case by (simp add: fun_upd_idem)
next
  case (Suc k)
  let ?chunk = "map s [pos..<pos + 1024]"
  let ?rest = "map s [pos + 1024..<pos + 1024 + 1024 * k]"
  have "iter_step (\<lambda>n. PByte (s n)) pos fs f = Next (pos + 1024) (fs(fh_path f \<mapsto> c @ ?chunk)) f"
    using iter_step_read [where peer = "\<lambda>n. PByte (s n)" and pos = pos and b = "s pos"
        and fs = fs and f = f and c = c, OF _ _ Suc.prems] by (simp add: read_upto_endless)
  then have "loop_run (\<lambda>n. PByte (s n)) (Suc k) pos fs f =
      loop_run (\<lambda>n. PByte (s n)) k (pos + 1024) (fs(fh_path f \<mapsto> c @ ?chunk)) f"
    by (rule loop_run_Next)
  also have "\<dots> = Next (pos + 1024 + 1024 * k) ((fs(fh_path f \<mapsto> c @ ?chunk))(fh_path f \<mapsto> (c @ ?chunk) @ ?rest)) f"
    by (rule Suc.IH) (simp_all add: Suc.prems(2))
  also have "(c @ ?chunk) @ ?rest = c @ map s [pos..<pos + 1024 * Suc k]"
  proof -
    have "[pos..<pos + 1024 + 1024 * k] = [pos..<pos + 1024] @ [pos + 1024..<pos + 1024 + 1024 * k]"
      by (rule upt_add_eq_append) simp
    then show ?thesis by (simp add: add.assoc)
  qed
  finally show ?case by (simp only: fun_upd_upd add.assoc mult_Suc_right)
qed

text \<open>The file of the first \<^verbatim>\<open>with\<close> block, just opened: empty, nothing buffered.\<close>

lemma open_wb_gz:
  "open_wb gzip_file_location fs =
     (fs(gzip_file_location \<mapsto> []), \<lparr>fh_path = gzip_file_location, fh_buf = []\<rparr>)"
  by (simp add: open_wb_def)

lemma fh_close_empty_buf:
  "fs (fh_path f) = Some c \<Longrightarrow> fh_buf f = [] \<Longrightarrow> fh_close fs f = fs"
  by (simp add: fh_close_def fh_flush_def file_content_def fun_upd_idem)

section \<open>Properties of the streamed download\<close>

text \<open>
  C16: on a response whose body is sent whole, the loop of lines 56--59 returns. When
  the peer closes the connection the compressed file holds the whole body; when it
  resets it, \<^verbatim>\<open>ChunkedEncodingError\<close> is raised after every whole kilobyte
  received has reached the file, and the bytes of the interrupted read are lost.
\<close>

theorem stream_to_file_live_body:
  "stream_to_file_live (body_peer bs br) fs =
     Some (if br then Inl (ChunkedEncodingError ''Connection broken: IncompleteRead'') else Inr (),
           fs(gzip_file_location \<mapsto> (if br then take (1024 * (length bs div 1024)) bs else bs)))"
proof -
  let ?f = "\<lparr>fh_path = gzip_file_location, fh_buf = []\<rparr>"
  have "stream_loop (body_peer bs br) 0 (fs(gzip_file_location \<mapsto> [])) ?f =
      Some (if br then Inl (ChunkedEncodingError ''Connection broken: IncompleteRead'') else Inr (),
            fs(gzip_file_location \<mapsto> (if br then take (1024 * (length bs div 1024)) bs else bs)), ?f)"
    using stream_loop_body_gen [where fs = "fs(gzip_file_location \<mapsto> [])" and f = ?f and c = "[]"
        and pos = 0 and bs = bs and br = br] by simp
  then show ?thesis by (simp add: stream_to_file_live_def open_wb_gz fh_close_empty_buf)
qed

text \<open>
  C17: a server that keeps sending keeps the script in the loop for ever
  (\<^verbatim>\<open>requests.get\<close> has no timeout and the loop no bound): the download never
  returns, and after \<open>k\<close> passes of the loop the compressed file on disk already holds
  the first \<open>k\<close> kilobytes received, each flushed before the next read, so the file
  grows without bound.
\<close>

theorem download_live_endless:
  assumes "net DB_FILE_URL = Inr (status, \<lambda>n. PByte (s n))"
  shows "download_live net gunzip fs = None \<and>
    loop_run (\<lambda>n. PByte (s n)) k 0 (fs(gzip_file_location \<mapsto> []))
        \<lparr>fh_path = gzip_file_location, fh_buf = []\<rparr> =
      Next (1024 * k) (fs(gzip_file_location \<mapsto> map s [0..<1024 * k]))
        \<lparr>fh_path = gzip_file_location, fh_buf = []\<rparr>"
proof
  let ?f = "\<lparr>fh_path = gzip_file_location, fh_buf = []\<rparr>"
  have "stream_loop (\<lambda>n. PByte (s n)) 0 (fs(gzip_file_location \<mapsto> [])) ?f = None"
    using stream_loop_returns_closed [where peer = "\<lambda>n. PByte (s n)"] by (cases "stream_loop (\<lambda>n. PByte (s n)) 0 (fs(gzip_file_location \<mapsto> [])) ?f") auto
  then show "download_live net gunzip fs = None"
    using assms by (simp add: download_live_def stream_to_file_live_def open_wb_gz)
  show "loop_run (\<lambda>n. PByte (s n)) k 0 (fs(gzip_file_location \<mapsto> [])) ?f =
      Next (1024 * k) (fs(gzip_file_location \<mapsto> map s [0..<1024 * k])) ?f"
    using loop_run_endless_gen [where fs = "fs(gzip_file_location \<mapsto> [])" and f = ?f and c = "[]"
        and pos = 0 and k = k and s = s] by simp
qed

end
