(* ===== verification/Spec2Isabelle.thy ===== *)
theory Spec2Isabelle
  imports Samples Stream
begin

text \<open>
  \<^bold>\<open>A verification development of flask-geoip2 (\<^verbatim>\<open>src/app.py\<close>).\<close>

  \<^bold>\<open>The program.\<close> One Python file: a Flask service that answers
  \<^verbatim>\<open>GET /geoip/<ip>\<close> with the location of an address, read from a MaxMind
  GeoLite2 City database file, plus a provisioner that downloads and decompresses that
  file and a command line that chooses between provisioning and serving. Its parts are
  the configuration constants (lines 13--30), the command line
  (\<^verbatim>\<open>setup_logging\<close> and \<^verbatim>\<open>parse_arguments\<close>, lines 34--48), the
  provisioner (\<^verbatim>\<open>download_fresh_db\<close>, lines 50--64), the lookup service
  (\<^verbatim>\<open>get_db_reader\<close>, lines 66--71), the handler with its field mapper
  (\<^verbatim>\<open>geoip\<close>, lines 73--94) and the entry point (lines 96--104). The handler
  calls the lookup service for a reader, the query engine for a record, and the mapper
  for the response; the entry point calls the command line, then the provisioner, then
  starts the server, which runs the handler once per request. The model is the program
  as Python 3 (3.7 or later) runs it: dicts keep insertion order, exceptions have no
  \<^verbatim>\<open>message\<close> attribute.

  \<^bold>\<open>The theories.\<close>
  \<^item> \<open>Prelude\<close>: the Python runtime pieces the code uses. Exceptions are values
    of \<open>py_exc\<close> (with their class names, \<open>py_exc_name\<close>) and a computation that
    may raise returns \<open>'a py = py_exc + 'a\<close> (\<open>Inl\<close> the exception), sequenced by
    \<open>py_bind\<close>; a dict is an association list in insertion order updated by
    \<open>dict_set\<close>; \<open>py_split\<close> is \<^verbatim>\<open>str.split\<close>, \<open>py_reduce\<close>
    \<^verbatim>\<open>functools.reduce\<close> with a raising function; the filesystem maps a path to
    its bytes (\<open>8 word list\<close>).
  \<^item> \<open>PyObject\<close>: Python values (\<open>pyobj\<close>), the builtin \<^verbatim>\<open>getattr\<close>
    (\<open>py_getattr\<close>, raising \<^verbatim>\<open>AttributeError\<close>), the specification's nested
    traversal \<open>resolve_path\<close>, JSON serialisation \<open>py_to_json\<close>, and
    \<open>sort_json\<close>, the key order of Flask's \<^verbatim>\<open>jsonify\<close> (its JSON provider
    dumps with \<^verbatim>\<open>sort_keys=True\<close>). Lemmas: \<^verbatim>\<open>reduce(getattr, ...)\<close>
    computes the traversal; leaves serialise.
  \<^item> \<open>Mapper\<close>: \<open>JSON_MAPPING\<close>, \<open>METRO_CODE\<close>, \<open>CODE\<close> and the loop of
    lines 81--89 (\<open>extract_field\<close>, \<open>fill_response\<close>, \<open>build_response\<close>). The
    abstract response \<open>spec_response\<close> is the contract; \<open>build_response_spec\<close> is
    the refinement lemma \<open>build_response r ip = Inr (spec_response r ip)\<close>, from which
    the keys and order (C2), the per-field fallback (C3) and the constants (C4) follow.
  \<^item> \<open>Lookup\<close>: the query engine interface (\<open>open_reader\<close>, \<open>reader_city\<close>,
    modelled from the specification with the decoder of the binary format a parameter),
    the request context \<^verbatim>\<open>flask.g\<close> (\<open>flask_g\<close>) in \<open>lookup_state\<close> with a
    counter of opened readers, \<open>get_db_reader\<close>, the try block \<open>geoip_try\<close>, the
    handler \<open>geoip\<close> with its \<^verbatim>\<open>except AddressNotFoundError\<close> branch (in which
    \<^verbatim>\<open>e.message\<close> of line 94 is \<open>exc_message_attr\<close>), \<open>jsonify\<close>
    (serialisation, then keys sorted), and \<open>serve_request\<close>/\<open>geoip_run\<close> for
    requests each in a fresh application context. Lemmas: success refines the abstract
    response, served with its keys sorted (C1; the logged \<^verbatim>\<open>json.dumps\<close> keeps
    the order of the code, \<open>jsonify_spec_response\<close>); an address not in the database
    makes the except branch itself raise \<^verbatim>\<open>AttributeError\<close> (C5), so that every
    answer of the handler is a success document and the specification's not-found
    document is never produced (C6); the cache slot is never written (C7); the other
    error paths (C8, C9); the log of a request (C26) and its levels (C27); a record that
    does not serialise (C29).
  \<^item> \<open>Provisioner\<close>: \<open>download_fresh_db\<close> with the network and the gzip
    decompressor as parameters (the decompressor returns the bytes or the exception it
    raises), files opened with \<^verbatim>\<open>'wb'\<close> as handles with a write buffer
    (\<open>open_wb\<close>, \<open>fh_write\<close>, \<open>fh_flush\<close>, \<open>fh_close\<close>), the chunking
    \<open>iter_content\<close>, the loop body \<open>write_chunk\<close> and the loop \<open>write_chunks\<close>,
    the two \<^verbatim>\<open>with\<close> blocks \<open>stream_to_file\<close> and \<open>decompress_db\<close>. This is
    the download over a response received whole. Lemmas: the effect on the filesystem on
    success (C10), on a broken connection (C11), on a download that does not decompress
    (C12), the frame (C13), the unread HTTP status (C14), the flush invariant of the loop
    (C15).
  \<^item> \<open>Stream\<close>: the same download over the connection. One pass of the loop of
    lines 56--59 (\<open>iter_step\<close>) reads up to 1024 bytes from the peer and writes and
    flushes them; \<open>stream_loop\<close>, a \<^theory_text>\<open>partial_function (option)\<close>, repeats
    it until the peer closes or resets the connection (\<open>None\<close>: it never does), and
    \<open>loop_run\<close> gives the state after \<open>k\<close> passes. Lemmas: on a body sent whole
    the loop returns with what it received on disk, only the whole kilobytes before a
    reset (C16); on a peer that never stops sending, \<open>download_live\<close> never returns
    while after \<open>k\<close> passes the compressed file already holds \<open>k\<close> kilobytes (C17).
  \<^item> \<open>Logging\<close>: the levels, \<open>setup_logging\<close> (lines 34--39) as the root level it
    configures, log records, and the filter \<open>emitted\<close> that decides what reaches the
    output. The handler appends the records of lines 69, 78, 90 and 93 to its state
    (\<open>app_logger\<close> in \<open>Lookup\<close>), \<^verbatim>\<open>download_fresh_db\<close> returns the records of
    lines 51 and 61, and the script keeps them (\<open>ps_log\<close>).
  \<^item> \<open>Routing\<close>: the rules of lines 73--74 as werkzeug matches them
    (\<open>match_rules\<close>, \<open>match_attempt\<close>, with the strict-slash and merged-slash
    redirects, \<open>route\<close>) and \<open>http_dispatch\<close>, one HTTP request from the router to
    the status and body Flask answers. Lemmas: the client's address is looked up exactly
    for \<^verbatim>\<open>/geoip/\<close> (C24); every failed lookup is a bare 500 (C25).
  \<^item> \<open>Cli\<close>: \<open>parse_arguments\<close> as argparse runs it for the four
    \<^verbatim>\<open>store_true\<close> flags (long names, unique prefixes, short clusters resolved before
    they are taken, help, \<^verbatim>\<open>--\<close>, an explicit value an error, unknown arguments
    exiting with status 2).
  \<^item> \<open>Service\<close>: the entry point \<open>run_main\<close> (its result a \<open>proc_state\<close>:
    filesystem, logging level, server started, exception, log): \<open>provision\<close> is lines
    100--101, and \<open>app_run\<close> line 104, where \<^verbatim>\<open>debug=True\<close> starts werkzeug's
    reloader, whose child process runs the script again and serves; \<open>start_server\<close>
    is the server's initial state. Lemmas: the script's control flow (C18, C19), the
    command line (C20, C21), the log of the script, the download logged twice under
    \<^verbatim>\<open>--debug\<close> (C28).
  \<^item> \<open>Samples\<close>: concrete data (the Springfield record of the specification's
    example, a database file and its decoder, a network and a decompressor) on which the
    witnesses evaluate the model.
  \<^item> This theory: the specification's example computed end to end
    (\<open>springfield_response\<close>), the composition of script, provisioner and handler
    (C22, C23), and the witnesses.

  The manifest lists the claims C1--C29 in order of importance; each is stated in the
  theory of the component it is about, after a text naming it.

  \<^bold>\<open>Bounds and fuel.\<close> The loops are structural recursion on lists, except
    \<open>iter_content\<close>, which terminates by the measure \<open>length\<close> (the body shrinks by
    1024 bytes a chunk), and the read loop \<open>stream_loop\<close> of \<open>Stream\<close>, which may
    run for ever on a peer that never stops sending and is therefore a
    \<^theory_text>\<open>partial_function (option)\<close>; C16 proves that it returns on every finite
    body (by induction on the bytes left) and C17 that it does not otherwise (by the
    fixed-point induction of the loop). \<open>loop_run\<close> counts passes, so that the state
    of a loop that never returns can be stated; no fuel bounds a result. The chunk size
    1024 is the source's.

  \<^bold>\<open>Not modelled.\<close> The binary MaxMind DB format and the address parser of the
    engine (the decoder and the outcome of a query are parameters); the deflate format
    (the decompressor is a parameter, returning bytes or raising); the format of log
    lines (timestamp) and the indented text of \<^verbatim>\<open>json.dumps\<close> (kept as the
    document it prints); Flask's own log record of an exception; the WSGI server,
    headers and percent-decoding of paths (\<open>Routing\<close> starts from the decoded path,
    and \<^verbatim>\<open>request.remote_addr\<close> is an input); filesystem errors other than a
    missing file (permissions, a missing \<^verbatim>\<open>data/\<close> directory); concurrency between
    requests (the server answers one request at a time, each in a fresh application
    context); the reloader's restarts when a source file changes; a network that
    answers the reloader's second download differently from the first.
\<close>

section \<open>The example of the specification\<close>

text \<open>
  The example of section 8 of the specification, computed: an address that the database
  maps to Springfield, US, with no postal and no subdivision data, gives the response with
  \<^verbatim>\<open>city\<close> Springfield, \<^verbatim>\<open>country_code\<close> US, the address, metro code 0,
  code 200, and the empty string for the zip code and both region fields.
\<close>

lemma springfield_response:
  "fst (geoip sample_decoder sample_fs ''127.0.0.1'' (Some ''1.2.3.4'') fresh_state) =
   Inr (JObj [(''city'', JStr ''Springfield''), (''code'', JInt 200), (''country_code'', JStr ''US''),
     (''country_name'', JStr ''United States''), (''ip'', JStr ''1.2.3.4''), (''latitude'', JFloat 39.8),
     (''longitude'', JFloat (-89.64)), (''metro_code'', JInt 0), (''region_code'', JStr ''''),
     (''region_name'', JStr ''''), (''time_zone'', JStr ''America/Chicago''), (''zip_code'', JStr '''')])"
  by (simp add: geoip_fst geoip_try_fst get_db_reader_fst open_reader_def sample_facts
      reader_city_def select_ip_def sample_query_def build_response_spec spec_response_def
      JSON_MAPPING_def field_value_def springfield_record_def jsonify_def json_dumps_def)

section \<open>Composition of the script, the provisioner and the handler\<close>

text \<open>
  C22: the processes compose. Started with \<^verbatim>\<open>--fresh\<close>, when the download
  completes and decompresses to a database file the engine opens, the script starts the
  server on the filesystem the download left, and a request for an address the new
  database holds is answered with the abstract response of that address.
\<close>

theorem fresh_start_serves:
  assumes "parse_arguments argv = Inr args" and "fresh args" and "\<not> download args"
    and "net DB_FILE_URL = Inr req" and "\<not> resp_broken req"
    and "gunzip (resp_body req) = Inr data" and "decode data = Some q"
    and "q (select_ip ra ia) = Found r"
    and "list_all (\<lambda>(k, p). is_leaf (field_value r p)) JSON_MAPPING"
  shows "\<exists>s. start_server (run_main argv net gunzip fs) = Some s \<and>
    fst (serve_request decode (srv_fs s) ra ia (srv_st s)) = jsonify (spec_response r (select_ip ra ia))"
proof -
  let ?fs' = "fs(gzip_file_location \<mapsto> resp_body req, DB_FILE_LOCATION \<mapsto> data)"
  have dl: "download_fresh_db net gunzip fs = (Inr (), ?fs', [downloading_record, decompressing_record])"
    using assms(4-6) by (simp add: download_fresh_db_fetched decompress_db_eq)
  let ?log = "if debug args then [downloading_record, decompressing_record, downloading_record,
      decompressing_record] else [downloading_record, decompressing_record]"
  have run: "run_main argv net gunzip fs =
      \<lparr>ps_fs = ?fs', ps_level = Some (setup_logging (verbose args)),
       ps_server = Some (debug args), ps_exit = None, ps_log = ?log\<rparr>"
    using assms(1-3) dl by (simp add: run_main_parsed provision_def)
  let ?st = "\<lparr>req_g = \<lparr>g_db_reader = None\<rparr>, open_attempts = 0, app_log = ?log\<rparr>"
  obtain js where js: "jsonify (spec_response r (select_ip ra ia)) = Inr (JObj (sort_key fst js))"
    "json_dumps (spec_response r (select_ip ra ia)) = Inr (JObj js)"
    using jsonify_spec_response [OF assms(9)] by blast
  have "fst (geoip_try decode ?fs' (select_ip ra ia) (app_context_push ?st)) =
      Inr (JObj (sort_key fst js))"
    using geoip_try_fresh [where decode = decode and fs = ?fs' and st = "app_context_push ?st"
        and content = data] assms(7,8) js by (simp add: app_context_push_def)
  then have "fst (serve_request decode ?fs' ra ia ?st) = jsonify (spec_response r (select_ip ra ia))"
    using js by (simp add: serve_request_def geoip_fst)
  then show ?thesis by (simp add: run start_server_def)
qed

text \<open>
  C23: a failed refresh breaks the service. Started with \<^verbatim>\<open>--fresh\<close>, when the
  download does not decompress the script ends with the decompressor's exception without
  serving, the database file is left empty, and every later request served on that
  filesystem (by a server started afterwards) fails with
  \<^verbatim>\<open>InvalidDatabaseError\<close> whenever the engine rejects an empty file.
\<close>

theorem failed_refresh_breaks_lookups:
  assumes "parse_arguments argv = Inr args" and "fresh args"
    and "net DB_FILE_URL = Inr req" and "\<not> resp_broken req"
    and "gunzip (resp_body req) = Inl e" and "decode [] = None"
  shows "ps_exit (run_main argv net gunzip fs) = Some e \<and>
    start_server (run_main argv net gunzip fs) = None \<and>
    ps_fs (run_main argv net gunzip fs) DB_FILE_LOCATION = Some [] \<and>
    fst (serve_request decode (ps_fs (run_main argv net gunzip fs)) ra ia st) =
      Inl (InvalidDatabaseError
        (''Error opening database file ('' @ DB_FILE_LOCATION @ ''). Is this a valid MaxMind DB file?''))"
proof -
  let ?fs' = "fs(gzip_file_location \<mapsto> resp_body req, DB_FILE_LOCATION \<mapsto> [])"
  have dl: "download_fresh_db net gunzip fs = (Inl e, ?fs', [downloading_record, decompressing_record])"
    using assms(3-5) by (simp add: download_fresh_db_fetched decompress_db_eq)
  have run: "run_main argv net gunzip fs =
      \<lparr>ps_fs = ?fs', ps_level = Some (setup_logging (verbose args)),
       ps_server = None, ps_exit = Some e, ps_log = [downloading_record, decompressing_record]\<rparr>"
    using assms(1,2) dl by (simp add: run_main_parsed provision_def)
  have "fst (serve_request decode ?fs' ra ia st) =
      Inl (InvalidDatabaseError
        (''Error opening database file ('' @ DB_FILE_LOCATION @ ''). Is this a valid MaxMind DB file?''))"
    using assms(6)
    by (simp add: serve_request_def geoip_fst geoip_try_def get_db_reader_def open_reader_def
        app_context_push_def)
  then show ?thesis by (simp add: run start_server_def)
qed

section \<open>Witnesses\<close>

theorem geoip_success_witness:
  "\<exists>js. fst (geoip sample_decoder sample_fs ''127.0.0.1'' (Some ''1.2.3.4'') fresh_state) = Inr (JObj js) \<and>
    jsonify (spec_response springfield_record ''1.2.3.4'') = Inr (JObj js) \<and> map fst js = sort response_keys"
proof -
  have sel: "select_ip ''127.0.0.1'' (Some ''1.2.3.4'') = ''1.2.3.4''"
    by (simp add: select_ip_def)
  have found: "sample_query (select_ip ''127.0.0.1'' (Some ''1.2.3.4'')) = Found springfield_record"
    by (simp add: sel sample_query_def)
  have leaves: "list_all (\<lambda>(k, p). is_leaf (field_value springfield_record p)) JSON_MAPPING"
    by (simp add: JSON_MAPPING_def field_value_def springfield_record_def)
  show ?thesis
    using Lookup.geoip_success [where decode = sample_decoder and fs = sample_fs and st = fresh_state, OF sample_facts found leaves] sel by simp
qed

theorem build_response_field_fallback_witness:
  "\<exists>r. build_response springfield_record ''1.2.3.4'' = Inr r \<and>
     map_of r ''region_name'' = Some (PyStr '''')"
proof -
  have m: "(''region_name'', ''subdivisions.most_specific.name'') \<in> set JSON_MAPPING"
    by (simp add: JSON_MAPPING_def)
  show ?thesis
    using Mapper.build_response_field_fallback [OF m, of springfield_record "''1.2.3.4''"]
    by (simp add: springfield_record_def)
qed

theorem geoip_not_found_witness:
  "fst (geoip sample_decoder sample_fs ''127.0.0.1'' (Some ''5.6.7.8'') fresh_state) =
   Inl (AttributeError (quoted ''AddressNotFoundError'' @ '' object has no attribute '' @ quoted ''message''))"
proof -
  have sel: "select_ip ''127.0.0.1'' (Some ''5.6.7.8'') = ''5.6.7.8''"
    by (simp add: select_ip_def)
  have nf: "sample_query (select_ip ''127.0.0.1'' (Some ''5.6.7.8'')) = NotInDatabase"
    by (simp add: sel sample_query_def)
  show ?thesis
    using Lookup.geoip_not_found [where decode = sample_decoder and fs = sample_fs and st = fresh_state, OF sample_facts nf] sel by simp
qed

theorem geoip_missing_db_witness:
  "fst (geoip sample_decoder Map.empty ''127.0.0.1'' None fresh_state) =
   Inl (FileNotFoundError (''[Errno 2] No such file or directory: '' @ quoted DB_FILE_LOCATION))"
  using Lookup.geoip_missing_db [OF sample_facts(1), of Map.empty sample_decoder "''127.0.0.1''" None]
  by simp

theorem geoip_invalid_address_witness:
  "\<exists>m. fst (geoip sample_decoder sample_fs ''127.0.0.1'' (Some ''not-an-ip'') fresh_state) =
     Inl (ValueError m)"
proof -
  have inv: "sample_query (select_ip ''127.0.0.1'' (Some ''not-an-ip'')) = InvalidAddress"
    by (simp add: select_ip_def sample_query_def)
  show ?thesis using Lookup.geoip_invalid_address [where decode = sample_decoder and fs = sample_fs and st = fresh_state, OF sample_facts inv] .
qed

theorem download_fresh_db_success_witness:
  "download_fresh_db sample_net sample_gunzip sample_fs =
   (Inr (), sample_fs(gzip_file_location \<mapsto> sample_gz_bytes, DB_FILE_LOCATION \<mapsto> sample_db_bytes),
    [downloading_record, decompressing_record])"
  using Provisioner.download_fresh_db_success [where net = sample_net and gunzip = sample_gunzip
      and req = sample_response and fs = sample_fs, OF sample_net_facts]
  by (simp add: sample_response_def)

theorem download_fresh_db_broken_witness:
  "download_fresh_db (\<lambda>u. Inr (sample_response\<lparr>resp_broken := True\<rparr>)) sample_gunzip sample_fs =
   (Inl (ChunkedEncodingError ''Connection broken: IncompleteRead''),
    sample_fs(gzip_file_location \<mapsto> sample_gz_bytes), [downloading_record])"
  using Provisioner.download_fresh_db_broken
      [of "\<lambda>u. Inr (sample_response\<lparr>resp_broken := True\<rparr>)" "sample_response\<lparr>resp_broken := True\<rparr>"
        sample_gunzip sample_fs]
  by (simp add: sample_response_def)

theorem download_fresh_db_bad_gzip_witness:
  "download_fresh_db sample_net (\<lambda>bs. Inl (BadGzipFile ''Not a gzipped file'')) sample_fs =
   (Inl (BadGzipFile ''Not a gzipped file''),
    sample_fs(gzip_file_location \<mapsto> sample_gz_bytes, DB_FILE_LOCATION \<mapsto> []),
    [downloading_record, decompressing_record])"
  using Provisioner.download_fresh_db_bad_gzip [where net = sample_net and gunzip = "\<lambda>bs. Inl (BadGzipFile ''Not a gzipped file'')"
      and req = sample_response and fs = sample_fs, OF sample_net_facts(1,2)]
  by (simp add: sample_response_def)

theorem download_fresh_db_frame_witness:
  "fst (snd (download_fresh_db sample_net sample_gunzip sample_fs)) ''app.py'' = sample_fs ''app.py''"
  using Provisioner.download_fresh_db_frame [of "''app.py''" sample_net sample_gunzip sample_fs]
  by (simp add: gzip_file_location_def DB_FILE_LOCATION_def)

theorem write_chunks_flushed_witness:
  "write_chunks sample_fs \<lparr>fh_path = DB_FILE_LOCATION, fh_buf = []\<rparr> [[0x01], [], [0x02]] =
   (sample_fs(DB_FILE_LOCATION \<mapsto> sample_db_bytes @ [0x01, 0x02]),
    \<lparr>fh_path = DB_FILE_LOCATION, fh_buf = []\<rparr>)"
  using Provisioner.write_chunks_flushed
      [of sample_fs "\<lparr>fh_path = DB_FILE_LOCATION, fh_buf = []\<rparr>" sample_db_bytes "[[0x01], [], [0x02]]"]
  by (simp add: sample_facts)

theorem main_download_only_witness:
  "ps_server (run_main [''-o''] sample_net sample_gunzip sample_fs) = None \<and>
   ps_fs (run_main [''-o''] sample_net sample_gunzip sample_fs) =
     sample_fs(gzip_file_location \<mapsto> sample_gz_bytes, DB_FILE_LOCATION \<mapsto> sample_db_bytes)"
  using Service.main_download_only [OF sample_argv(1), of sample_net sample_gunzip sample_fs]
    download_fresh_db_fetched [where net = sample_net and req = sample_response and gunzip = sample_gunzip
      and fs = sample_fs, OF sample_net_facts(1)] sample_net_facts
  by (simp add: decompress_db_eq sample_response_def)

theorem main_serves_witness:
  "ps_level (run_main [''-d''] sample_net sample_gunzip sample_fs) = Some INFO \<and>
   ps_fs (run_main [''-d''] sample_net sample_gunzip sample_fs) = sample_fs \<and>
   ps_server (run_main [''-d''] sample_net sample_gunzip sample_fs) = Some True"
  using Service.main_serves [OF sample_argv(2), of sample_net sample_gunzip sample_fs]
  by (simp add: no_flags_def setup_logging_def)

theorem parse_arguments_flags_witness:
  "parse_arguments [''-f'', ''--verbose''] = Inr \<lparr>debug = False, fresh = True, download = False, verbose = True\<rparr>"
  using Service.parse_arguments_flags [of "[''-f'', ''--verbose'']"]
  by (simp add: flag_tokens_def)

theorem parse_arguments_rejects_witness:
  "parse_arguments [''-d'', ''extra''] = Inl (SystemExit 2)"
  using Service.parse_arguments_rejects [of "[''-d'']" "[]" "''extra''"]
  by (simp add: flag_tokens_def)

theorem fresh_start_serves_witness:
  "\<exists>s. start_server (run_main [''--fresh''] sample_net sample_gunzip Map.empty) = Some s \<and>
    fst (serve_request sample_decoder (srv_fs s) ''127.0.0.1'' (Some ''1.2.3.4'') (srv_st s)) =
      jsonify (spec_response springfield_record ''1.2.3.4'')"
proof -
  have sel: "select_ip ''127.0.0.1'' (Some ''1.2.3.4'') = ''1.2.3.4''"
    by (simp add: select_ip_def)
  have found: "sample_query (select_ip ''127.0.0.1'' (Some ''1.2.3.4'')) = Found springfield_record"
    by (simp add: sel sample_query_def)
  have leaves: "list_all (\<lambda>(k, p). is_leaf (field_value springfield_record p)) JSON_MAPPING"
    by (simp add: JSON_MAPPING_def field_value_def springfield_record_def)
  have args: "fresh (no_flags\<lparr>fresh := True\<rparr>)" "\<not> download (no_flags\<lparr>fresh := True\<rparr>)"
    by (simp_all add: no_flags_def)
  show ?thesis
    using fresh_start_serves [where net = sample_net and gunzip = sample_gunzip and req = sample_response
        and decode = sample_decoder and data = sample_db_bytes and q = sample_query
        and ra = "''127.0.0.1''" and ia = "Some ''1.2.3.4''" and fs = Map.empty,
        OF sample_argv(3) args sample_net_facts sample_facts(3) found leaves]
    by (simp add: sel)
qed

theorem failed_refresh_breaks_lookups_witness:
  "ps_exit (run_main [''--fresh''] sample_net (\<lambda>bs. Inl (BadGzipFile ''Not a gzipped file'')) sample_fs) =
     Some (BadGzipFile ''Not a gzipped file'') \<and>
   start_server (run_main [''--fresh''] sample_net (\<lambda>bs. Inl (BadGzipFile ''Not a gzipped file'')) sample_fs) = None \<and>
   (\<exists>m. fst (serve_request sample_decoder (ps_fs (run_main [''--fresh''] sample_net (\<lambda>bs. Inl (BadGzipFile ''Not a gzipped file'')) sample_fs))
      ''127.0.0.1'' None fresh_state) = Inl (InvalidDatabaseError m))"
proof -
  have dec: "sample_decoder [] = None" by (simp add: sample_decoder_def sample_db_bytes_def)
  have args: "fresh (no_flags\<lparr>fresh := True\<rparr>)" by (simp add: no_flags_def)
  show ?thesis
    using failed_refresh_breaks_lookups [where net = sample_net and gunzip = "\<lambda>bs. Inl (BadGzipFile ''Not a gzipped file'')"
        and req = sample_response and decode = sample_decoder and fs = sample_fs
        and ra = "''127.0.0.1''" and ia = None and st = fresh_state,
        OF sample_argv(3) args sample_net_facts(1,2) _ dec]
    by simp
qed

theorem route_selects_address_witness:
  "route GET ''/geoip/1.2.3.4'' = RouteView (Some ''1.2.3.4'') \<and>
   select_ip ''127.0.0.1'' (Some ''1.2.3.4'') = ''1.2.3.4''"
proof -
  have r: "route GET ''/geoip/1.2.3.4'' = RouteView (Some ''1.2.3.4'')"
    by (simp add: route_def match_attempt_def rule_method_def match_rules_def geoip_prefix_def)
  from r Routing.route_selects_address [OF r, of "''127.0.0.1''"] show ?thesis by simp
qed

theorem http_lookup_errors_witness:
  "fst (http_dispatch sample_decoder sample_fs GET ''/geoip/5.6.7.8'' ''127.0.0.1'' fresh_state) =
     empty_reply 500 \<and>
   fst (http_dispatch sample_decoder sample_fs GET ''/geoip/not-an-ip'' ''127.0.0.1'' fresh_state) =
     empty_reply 500"
proof -
  have m1: "match_rules ''/geoip/5.6.7.8'' = Some (Some ''5.6.7.8'')"
    and m2: "match_rules ''/geoip/not-an-ip'' = Some (Some ''not-an-ip'')"
    by (simp_all add: match_rules_def geoip_prefix_def)
  have q1: "sample_query (select_ip ''127.0.0.1'' (Some ''5.6.7.8'')) = NotInDatabase"
    and q2: "sample_query (select_ip ''127.0.0.1'' (Some ''not-an-ip'')) = InvalidAddress"
    by (simp_all add: select_ip_def sample_query_def)
  show ?thesis
    using Routing.http_lookup_errors [OF m1, where fs = sample_fs and content = sample_db_bytes
        and decode = sample_decoder and q = sample_query and remote_addr = "''127.0.0.1''"
        and st = fresh_state]
      Routing.http_lookup_errors [OF m2, where fs = sample_fs and content = sample_db_bytes
        and decode = sample_decoder and q = sample_query and remote_addr = "''127.0.0.1''"
        and st = fresh_state]
      sample_facts q1 q2
    by (simp add: select_ip_def not_found_message_def)
qed

theorem geoip_request_log_witness:
  "app_log (snd (geoip sample_decoder sample_fs ''127.0.0.1'' (Some ''5.6.7.8'') fresh_state)) =
    [\<lparr>lr_level = INFO, lr_msg = LogText ''looking up IP address: 5.6.7.8''\<rparr>,
     \<lparr>lr_level = INFO, lr_msg = LogText ''opening connection to database''\<rparr>,
     \<lparr>lr_level = WARNING,
      lr_msg = LogText ''Unable find ip address: The address 5.6.7.8 is not in the database.''\<rparr>]"
proof -
  have sel: "select_ip ''127.0.0.1'' (Some ''5.6.7.8'') = ''5.6.7.8''" by (simp add: select_ip_def)
  have nf: "sample_query ''5.6.7.8'' = NotInDatabase" by (simp add: sample_query_def)
  show ?thesis
    using Lookup.geoip_request_log [where decode = sample_decoder and fs = sample_fs
        and st = fresh_state and ra = "''127.0.0.1''" and ia = "Some ''5.6.7.8''", OF sample_facts]
    by (simp add: sel nf fresh_state_def not_found_message_def)
qed

theorem geoip_run_log_levels_witness:
  "emitted DEBUG (app_log (snd (geoip_run sample_decoder sample_fs
      [(''127.0.0.1'', Some ''1.2.3.4''), (''127.0.0.1'', None)] fresh_state))) =
   app_log (snd (geoip_run sample_decoder sample_fs
      [(''127.0.0.1'', Some ''1.2.3.4''), (''127.0.0.1'', None)] fresh_state))"
proof -
  have "info_or_above (app_log fresh_state)" by (simp add: fresh_state_def info_or_above_def)
  from Lookup.geoip_run_log_levels [OF this, of sample_decoder sample_fs
      "[(''127.0.0.1'', Some ''1.2.3.4''), (''127.0.0.1'', None)]" True]
  show ?thesis by (simp add: setup_logging_def)
qed

theorem main_log_witness:
  "ps_log (run_main [''-f'', ''-d''] sample_net sample_gunzip sample_fs) =
     [downloading_record, decompressing_record, downloading_record, decompressing_record]"
proof -
  have "fst (download_fresh_db sample_net sample_gunzip sample_fs) = Inr ()"
    using download_fresh_db_fetched [where net = sample_net and req = sample_response
        and gunzip = sample_gunzip and fs = sample_fs, OF sample_net_facts(1)] sample_net_facts
    by (simp add: decompress_db_eq sample_response_def)
  then show ?thesis
    using Service.main_log [OF sample_argv(4), of sample_net sample_gunzip sample_fs] sample_net_facts
    by (simp add: no_flags_def)
qed

theorem geoip_answers_success_keys_witness:
  "\<exists>js. JObj [(''city'', JStr ''Springfield''), (''code'', JInt 200), (''country_code'', JStr ''US''),
     (''country_name'', JStr ''United States''), (''ip'', JStr ''1.2.3.4''), (''latitude'', JFloat 39.8),
     (''longitude'', JFloat (-89.64)), (''metro_code'', JInt 0), (''region_code'', JStr ''''),
     (''region_name'', JStr ''''), (''time_zone'', JStr ''America/Chicago''), (''zip_code'', JStr '''')] =
       JObj js \<and> map fst js = sort response_keys"
  using Lookup.geoip_answers_success_keys [OF springfield_response] .

theorem download_live_endless_witness:
  "download_live (\<lambda>u. Inr (200, \<lambda>n. PByte 0)) sample_gunzip sample_fs = None \<and>
   loop_run (\<lambda>n. PByte 0) 2 0 (sample_fs(gzip_file_location \<mapsto> []))
       \<lparr>fh_path = gzip_file_location, fh_buf = []\<rparr> =
     Next 2048 (sample_fs(gzip_file_location \<mapsto> replicate 2048 0))
       \<lparr>fh_path = gzip_file_location, fh_buf = []\<rparr>"
  using Stream.download_live_endless [where net = "\<lambda>u. Inr (200, \<lambda>n. PByte 0)" and status = 200
      and s = "\<lambda>n. 0" and gunzip = sample_gunzip and fs = sample_fs and k = 2]
  by (simp add: map_replicate_const)

theorem geoip_unserialisable_witness:
  "fst (geoip (\<lambda>c. Some (\<lambda>ip. Found object_city_record)) sample_fs ''127.0.0.1'' None fresh_state) =
     Inl (TypeError ''Object of type object is not JSON serializable'')"
proof -
  have m: "(''city'', ''city.name'') \<in> set JSON_MAPPING" by (simp add: JSON_MAPPING_def)
  have v: "field_value object_city_record ''city.name'' = PyObj []"
    by (simp add: field_value_def object_city_record_def)
  show ?thesis
    using Lookup.geoip_unserialisable [where decode = "\<lambda>c. Some (\<lambda>ip. Found object_city_record)"
        and fs = sample_fs and st = fresh_state and ra = "''127.0.0.1''" and ia = None
        and q = "\<lambda>ip. Found object_city_record", OF sample_facts(1,2) _ _ m v]
    by simp
qed

end
